theory Spec2Isabelle
  imports Complex_Main "HOL-Library.Monad_Syntax"
begin

section \<open>Derived-metric functions (app/dashboard.py, app/computations.py)\<close>

text \<open>
  Python numbers: the device and node counts are unbounded Python integers (\<open>int\<close>); the
  quantities the source computes in binary floating point (ratios, percentages, dBm
  averages) are modelled by the exact real numbers they approximate. Health statuses are
  the string literals of the source.
\<close>

datatype py_error = ZeroDivisionError | ValueError | DatabaseError | NotifyError | OtherError

text \<open>Python's true division \<open>a / b\<close>: raises on a zero divisor.\<close>

definition py_truediv :: "real \<Rightarrow> real \<Rightarrow> py_error + real" where
  "py_truediv a b = (if b = 0 then Inl ZeroDivisionError else Inr (a / b))"

text \<open>
  \<^verbatim>\<open>
  def calculate_health_status(total_devices, online_devices):
      if total_devices == 0 or online_devices == 0:
          return 'offline'
      online_pct = online_devices / total_devices
      if online_pct > 0.5:
          return 'healthy'
      else:
          return 'degraded'
  \<close>
\<close>

definition calculate_health_status :: "int \<Rightarrow> int \<Rightarrow> py_error + string" where
  "calculate_health_status total_devices online_devices =
     (if total_devices = 0 \<or> online_devices = 0 then Inr ''offline''
      else case py_truediv (real_of_int online_devices) (real_of_int total_devices) of
             Inl e \<Rightarrow> Inl e
           | Inr online_pct \<Rightarrow>
               if online_pct > 0.5 then Inr ''healthy'' else Inr ''degraded'')"

text \<open>
  \<^verbatim>\<open>
  def calculate_bandwidth_utilization(usage_mbps, capacity_mbps):
      if capacity_mbps <= 0:
          return 0.0
      utilization = (usage_mbps / capacity_mbps) * 100
      return max(0.0, min(100.0, utilization))
  \<close>
\<close>

definition calculate_bandwidth_utilization :: "real \<Rightarrow> real \<Rightarrow> py_error + real" where
  "calculate_bandwidth_utilization usage_mbps capacity_mbps =
     (if capacity_mbps \<le> 0 then Inr 0
      else case py_truediv usage_mbps capacity_mbps of
             Inl e \<Rightarrow> Inl e
           | Inr q \<Rightarrow> (let utilization = q * 100 in Inr (max 0 (min 100 utilization))))"

text \<open>
  Python's \<open>round(x)\<close> on a float: to the nearest integer, a tie going to the even one.
\<close>

definition py_round :: "real \<Rightarrow> int" where
  "py_round x =
     (let f = \<lfloor>x\<rfloor>; d = x - of_int f
      in if d < 1 / 2 then f else if 1 / 2 < d then f + 1
         else if even f then f else f + 1)"

text \<open>\<open>round(x, 1)\<close>: the same rounding at one decimal place.\<close>

definition py_round1 :: "real \<Rightarrow> real" where
  "py_round1 x = of_int (py_round (x * 10)) / 10"

text \<open>
  \<^verbatim>\<open>
  def compute_health_score(green_nodes, total_nodes, avg_signal_dbm, uptime_24h,
                           bandwidth_utilization):
      node_score = (green_nodes / total_nodes) * 100 if total_nodes > 0 else 0
      signal_score = max(0, min(100, ((avg_signal_dbm + 90) / 60) * 100))
      uptime_score = uptime_24h
      bandwidth_score = 100 - bandwidth_utilization
      health_score = round(node_score * 0.25 + signal_score * 0.25
                           + uptime_score * 0.25 + bandwidth_score * 0.25)
      return max(0, min(100, health_score))
  \<close>
  The division by \<open>total_nodes\<close> is the only operation that can raise; it is kept as a
  fallible step so that the guard in front of it is what makes the function total.
\<close>

definition node_score_of :: "int \<Rightarrow> int \<Rightarrow> py_error + real" where
  "node_score_of green_nodes total_nodes =
     (if total_nodes > 0
      then case py_truediv (real_of_int green_nodes) (real_of_int total_nodes) of
             Inl e \<Rightarrow> Inl e
           | Inr q \<Rightarrow> Inr (q * 100)
      else Inr 0)"

definition signal_score_of :: "real \<Rightarrow> py_error + real" where
  "signal_score_of avg_signal_dbm =
     (case py_truediv (avg_signal_dbm + 90) 60 of
        Inl e \<Rightarrow> Inl e
      | Inr q \<Rightarrow> Inr (max 0 (min 100 (q * 100))))"

definition compute_health_score ::
  "int \<Rightarrow> int \<Rightarrow> real \<Rightarrow> real \<Rightarrow> real \<Rightarrow> py_error + int" where
  "compute_health_score green_nodes total_nodes avg_signal_dbm uptime_24h bandwidth_utilization =
     (case node_score_of green_nodes total_nodes of
        Inl e \<Rightarrow> Inl e
      | Inr node_score \<Rightarrow>
          (case signal_score_of avg_signal_dbm of
             Inl e \<Rightarrow> Inl e
           | Inr signal_score \<Rightarrow>
               (let uptime_score = uptime_24h;
                    bandwidth_score = 100 - bandwidth_utilization;
                    health_score = py_round (node_score * 0.25 + signal_score * 0.25
                                             + uptime_score * 0.25 + bandwidth_score * 0.25)
                in Inr (max 0 (min 100 health_score)))))"

section \<open>Bounded time-series (update_cache, app/dashboard.py lines 644-661)\<close>

text \<open>
  Timestamps are the ISO-8601 strings \<open>datetime.isoformat()\<close> writes and
  \<open>datetime.fromisoformat\<close> reads. \<open>Iso t\<close> stands for the text of the instant \<open>t\<close>
  (microseconds since the epoch); \<open>Unparsable s\<close> is any other text, on which
  \<open>fromisoformat\<close> raises \<open>ValueError\<close>.
\<close>

type_synonym instant = int

datatype timestr = Iso instant | Unparsable string

record conn_sample =
  cs_timestamp :: timestr
  cs_count :: nat
  cs_wireless_count :: nat

record signal_sample =
  ss_timestamp :: timestr
  ss_avg_dbm :: real

text \<open>The slice \<open>xs[-n:]\<close>: the last \<open>n\<close> elements, the whole list when it is shorter.\<close>

definition py_last_n :: "nat \<Rightarrow> 'a list \<Rightarrow> 'a list" where
  "py_last_n n xs = drop (length xs - n) xs"

text \<open>
  \<^verbatim>\<open>
  network_connected_users = network_cache.get('connected_users', [])
  network_connected_users.append({'timestamp': current_time.isoformat(),
      'count': len(connected_devices), 'wireless_count': len(wireless_devices)})
  if len(network_connected_users) > 168:
      network_connected_users = network_connected_users[-168:]
  \<close>
\<close>

definition update_connected_users ::
  "conn_sample list \<Rightarrow> instant \<Rightarrow> nat \<Rightarrow> nat \<Rightarrow> conn_sample list" where
  "update_connected_users network_connected_users current_time n_connected n_wireless =
     (let appended = network_connected_users @
            [\<lparr>cs_timestamp = Iso current_time, cs_count = n_connected,
              cs_wireless_count = n_wireless\<rparr>]
      in if length appended > 168 then py_last_n 168 appended else appended)"

text \<open>
  \<^verbatim>\<open>
  network_signal_strength_avg = network_cache.get('signal_strength_avg', [])
  if network_signal_values:
      avg_signal = sum(network_signal_values) / len(network_signal_values)
      network_signal_strength_avg.append({'timestamp': current_time.isoformat(),
                                          'avg_dbm': round(avg_signal, 1)})
  if len(network_signal_strength_avg) > 168:
      network_signal_strength_avg = network_signal_strength_avg[-168:]
  \<close>
\<close>

definition update_signal_strength_avg ::
  "signal_sample list \<Rightarrow> instant \<Rightarrow> real list \<Rightarrow> signal_sample list" where
  "update_signal_strength_avg network_signal_strength_avg current_time network_signal_values =
     (let appended =
            (if network_signal_values \<noteq> []
             then (let avg_signal = sum_list network_signal_values
                                      / real (length network_signal_values)
                   in network_signal_strength_avg @
                        [\<lparr>ss_timestamp = Iso current_time, ss_avg_dbm = py_round1 avg_signal\<rparr>])
             else network_signal_strength_avg)
      in if length appended > 168 then py_last_n 168 appended else appended)"


section \<open>Alert engine (app/alerts.py)\<close>

text \<open>
  An alert is the dict the source builds; its four keys are the record's fields. The
  em dash of the message texts is written as its three UTF-8 bytes.
\<close>

record alert =
  a_network_id :: string
  a_alert_type :: string
  a_severity :: string
  a_message :: string

definition em_dash :: string where
  "em_dash = [CHR 0xE2, CHR 0x80, CHR 0x94]"

datatype log_entry =
    LogRecovered string string
  | LogAlertGenerated string
  | LogPersistFailed py_error
  | LogBandwidthAlert string
  | LogBandwidthPersistFailed py_error

text \<open>
  The state the alert engine reads and writes: the module-level dict
  \<open>_previous_health\<close>, the rows of the alerts table, the notifications delivered and the
  log.
\<close>

record alert_engine =
  previous_health :: "string \<rightharpoonup> string"
  alerts_table :: "alert list"
  delivered :: "alert list"
  logged :: "log_entry list"

text \<open>
  What the two collaborators do during one call is an input of the model:
  \<open>insert_alert\<close> either commits its row or rolls back and raises;
  \<open>notify_alert\<close> raises, or returns whether a mail was sent.
\<close>

datatype notify_result = NotifyRaises | NotifyReturns bool

record alert_io =
  insert_alert_raises :: bool
  notify_outcome :: notify_result

text \<open>
  Statements run in a state and either return a value or raise; the state at the raise
  is kept, as Python keeps the effects made before an exception.
\<close>

type_synonym 'a stmt = "alert_engine \<Rightarrow> (py_error + 'a) \<times> alert_engine"

definition returning :: "'a \<Rightarrow> 'a stmt" where
  "returning x = (\<lambda>w. (Inr x, w))"

definition raising :: "py_error \<Rightarrow> 'a stmt" where
  "raising e = (\<lambda>w. (Inl e, w))"

definition and_then :: "'a stmt \<Rightarrow> ('a \<Rightarrow> 'b stmt) \<Rightarrow> 'b stmt" where
  "and_then m f = (\<lambda>w. case m w of (Inl e, w') \<Rightarrow> (Inl e, w') | (Inr x, w') \<Rightarrow> f x w')"

definition try_except :: "'a stmt \<Rightarrow> (py_error \<Rightarrow> 'a stmt) \<Rightarrow> 'a stmt" where
  "try_except m handler =
     (\<lambda>w. case m w of (Inl e, w') \<Rightarrow> handler e w' | (Inr x, w') \<Rightarrow> (Inr x, w'))"

definition logging :: "log_entry \<Rightarrow> unit stmt" where
  "logging entry = (\<lambda>w. (Inr (), w\<lparr>logged := logged w @ [entry]\<rparr>))"

text \<open>\<open>insert_alert\<close> (app/database.py): commit the row, or roll back and re-raise.\<close>

definition insert_alert :: "alert_io \<Rightarrow> alert \<Rightarrow> unit stmt" where
  "insert_alert io a =
     (if insert_alert_raises io then raising DatabaseError
      else (\<lambda>w. (Inr (), w\<lparr>alerts_table := alerts_table w @ [a]\<rparr>)))"

text \<open>\<open>notify_alert\<close> (app/notifications.py).\<close>

definition notify_alert :: "alert_io \<Rightarrow> alert \<Rightarrow> bool stmt" where
  "notify_alert io a =
     (case notify_outcome io of
        NotifyRaises \<Rightarrow> raising NotifyError
      | NotifyReturns True \<Rightarrow> (\<lambda>w. (Inr True, w\<lparr>delivered := delivered w @ [a]\<rparr>))
      | NotifyReturns False \<Rightarrow> returning False)"

definition offline_alert :: "string \<Rightarrow> string \<Rightarrow> alert" where
  "offline_alert network_id network_name =
     \<lparr>a_network_id = network_id, a_alert_type = ''offline'', a_severity = ''critical'',
      a_message = network_name @ '' has gone offline '' @ em_dash
                    @ '' all devices are unreachable.''\<rparr>"

definition degraded_alert :: "string \<Rightarrow> string \<Rightarrow> alert" where
  "degraded_alert network_id network_name =
     \<lparr>a_network_id = network_id, a_alert_type = ''degraded'', a_severity = ''warning'',
      a_message = network_name @ '' is degraded '' @ em_dash
                    @ '' 50% or fewer devices are online.''\<rparr>"

text \<open>
  \<^verbatim>\<open>
  def check_health_transition(network_id, network_name, new_status):
      old_status = _previous_health.get(network_id)
      _previous_health[network_id] = new_status
      if old_status is None or old_status == new_status:
          return None
      alert = None
      if new_status == "offline":
          alert = {... "alert_type": "offline", "severity": "critical", ...}
      elif new_status == "degraded" and old_status == "healthy":
          alert = {... "alert_type": "degraded", "severity": "warning", ...}
      elif new_status == "healthy" and old_status in ("offline", "degraded"):
          logger.info("Network %s (%s) recovered to healthy", ...)
          return None
      if alert:
          try:
              insert_alert(...)
              logger.warning("Alert generated: %s", alert["message"])
              notify_alert(alert)
          except Exception as e:
              logger.error("Failed to persist alert: %s", e)
          return alert
      return None
  \<close>
\<close>

definition persist_and_notify :: "alert_io \<Rightarrow> alert \<Rightarrow> unit stmt" where
  "persist_and_notify io a =
     try_except
       (and_then (insert_alert io a) (\<lambda>_.
        and_then (logging (LogAlertGenerated (a_message a))) (\<lambda>_.
        and_then (notify_alert io a) (\<lambda>_. returning ()))))
       (\<lambda>e. logging (LogPersistFailed e))"

definition check_health_transition ::
  "alert_io \<Rightarrow> string \<Rightarrow> string \<Rightarrow> string \<Rightarrow> alert option stmt" where
  "check_health_transition io network_id network_name new_status =
     (\<lambda>w0.
        let old_status = previous_health w0 network_id;
            w = w0\<lparr>previous_health := (previous_health w0)(network_id \<mapsto> new_status)\<rparr>
        in if old_status = None \<or> old_status = Some new_status then returning None w
           else if new_status = ''offline''
             then and_then (persist_and_notify io (offline_alert network_id network_name))
                    (\<lambda>_. returning (Some (offline_alert network_id network_name))) w
           else if new_status = ''degraded'' \<and> old_status = Some ''healthy''
             then and_then (persist_and_notify io (degraded_alert network_id network_name))
                    (\<lambda>_. returning (Some (degraded_alert network_id network_name))) w
           else if new_status = ''healthy''
                   \<and> (old_status = Some ''offline'' \<or> old_status = Some ''degraded'')
             then and_then (logging (LogRecovered network_id network_name))
                    (\<lambda>_. returning None) w
           else returning None w)"

text \<open>
  \<^verbatim>\<open>
  def check_bandwidth_alert(network_id, network_name, utilization):
      if utilization > 95:
          alert = {... "alert_type": "bandwidth", "severity": "critical",
                   "message": f"{network_name} bandwidth at {utilization:.1f}% ..."}
          try:
              insert_alert(...)
              logger.warning("Bandwidth alert: %s", alert["message"])
              notify_alert(alert)
          except Exception as e:
              logger.error("Failed to persist bandwidth alert: %s", e)
          return alert
      return None
  \<close>
  The text Python's format specification \<open>.1f\<close> produces is the parameter \<open>fmt_1f\<close>.
\<close>

definition bandwidth_alert :: "(real \<Rightarrow> string) \<Rightarrow> string \<Rightarrow> string \<Rightarrow> real \<Rightarrow> alert" where
  "bandwidth_alert fmt_1f network_id network_name utilization =
     \<lparr>a_network_id = network_id, a_alert_type = ''bandwidth'', a_severity = ''critical'',
      a_message = network_name @ '' bandwidth at '' @ fmt_1f utilization @ ''% '' @ em_dash
                    @ '' exceeds 95% threshold.''\<rparr>"

definition persist_and_notify_bandwidth :: "alert_io \<Rightarrow> alert \<Rightarrow> unit stmt" where
  "persist_and_notify_bandwidth io a =
     try_except
       (and_then (insert_alert io a) (\<lambda>_.
        and_then (logging (LogBandwidthAlert (a_message a))) (\<lambda>_.
        and_then (notify_alert io a) (\<lambda>_. returning ()))))
       (\<lambda>e. logging (LogBandwidthPersistFailed e))"

definition check_bandwidth_alert ::
  "(real \<Rightarrow> string) \<Rightarrow> alert_io \<Rightarrow> string \<Rightarrow> string \<Rightarrow> real \<Rightarrow> alert option stmt" where
  "check_bandwidth_alert fmt_1f io network_id network_name utilization =
     (if utilization > 95
      then and_then
             (persist_and_notify_bandwidth io
                (bandwidth_alert fmt_1f network_id network_name utilization))
             (\<lambda>_. returning (Some (bandwidth_alert fmt_1f network_id network_name utilization)))
      else returning None)"

text \<open>
  \<^verbatim>\<open>
  def process_network_alerts(network_id, network_name, health_status,
                             bandwidth_utilization=0.0):
      alerts = []
      health_alert = check_health_transition(network_id, network_name, health_status)
      if health_alert:
          alerts.append(health_alert)
      bw_alert = check_bandwidth_alert(network_id, network_name, bandwidth_utilization)
      if bw_alert:
          alerts.append(bw_alert)
      return alerts
  \<close>
  Each of the two checks has its own collaborator outcomes.
\<close>

definition process_network_alerts ::
  "(real \<Rightarrow> string) \<Rightarrow> alert_io \<Rightarrow> alert_io \<Rightarrow> string \<Rightarrow> string \<Rightarrow> string \<Rightarrow> real
     \<Rightarrow> alert list stmt" where
  "process_network_alerts fmt_1f io_health io_bw network_id network_name health_status
       bandwidth_utilization =
     and_then (check_health_transition io_health network_id network_name health_status)
       (\<lambda>health_alert.
     and_then (check_bandwidth_alert fmt_1f io_bw network_id network_name bandwidth_utilization)
       (\<lambda>bw_alert.
     returning ((case health_alert of None \<Rightarrow> [] | Some a \<Rightarrow> [a])
                @ (case bw_alert of None \<Rightarrow> [] | Some a \<Rightarrow> [a]))))"


text \<open>
  The decision table of the specification (section 4.2), written from its words: no
  alert on a first observation or an unchanged status; an offline alert on any change to
  offline; a degraded alert on a change to degraded only from healthy; nothing
  otherwise. The embedding above is compared with it.
\<close>

definition spec_health_alert :: "string option \<Rightarrow> string \<Rightarrow> string \<Rightarrow> string \<Rightarrow> alert option" where
  "spec_health_alert old_status network_id network_name new_status =
     (if old_status = None \<or> old_status = Some new_status then None
      else if new_status = ''offline'' then Some (offline_alert network_id network_name)
      else if new_status = ''degraded'' \<and> old_status = Some ''healthy''
        then Some (degraded_alert network_id network_name)
      else None)"

text \<open>
  One network observed over successive cycles: \<open>check_health_transition\<close> is called once
  per observation, each call with its own collaborator outcomes, and the values returned
  are collected in order.
\<close>

fun observe_statuses ::
  "string \<Rightarrow> string \<Rightarrow> (alert_io \<times> string) list \<Rightarrow> alert_engine
     \<Rightarrow> (py_error + alert option) list \<times> alert_engine" where
  "observe_statuses network_id network_name [] w = ([], w)"
| "observe_statuses network_id network_name ((io, new_status) # rest) w =
     (case check_health_transition io network_id network_name new_status w of
        (r, w') \<Rightarrow>
          (case observe_statuses network_id network_name rest w' of
             (rs, w'') \<Rightarrow> (r # rs, w'')))"


section \<open>Uptime incidents (app/database.py, app/dashboard.py)\<close>

text \<open>
  A row of the \<open>uptime_incidents\<close> table. Rows are kept in insertion order; the
  autoincrement key is the position of the row.
\<close>

record uptime_incident =
  inc_network_id :: string
  inc_start_time :: timestr
  inc_end_time :: "timestr option"
  inc_duration_seconds :: "int option"
  inc_affected_devices :: "string option"

text \<open>\<open>datetime.fromisoformat\<close>, and \<open>int(delta.total_seconds())\<close>, which truncates towards 0.\<close>

definition fromisoformat :: "timestr \<Rightarrow> py_error + instant" where
  "fromisoformat ts = (case ts of Iso t \<Rightarrow> Inr t | Unparsable _ \<Rightarrow> Inl ValueError)"

definition whole_seconds :: "int \<Rightarrow> int" where
  "whole_seconds micros =
     (if 0 \<le> micros then micros div 1000000 else - ((- micros) div 1000000))"

text \<open>
  The body both closing loops share:
  \<^verbatim>\<open>
  inc.end_time = now.isoformat()
  try:
      inc_start = datetime.fromisoformat(inc.start_time)
      if inc_start.tzinfo is None:
          inc_start = pytz.UTC.localize(inc_start)
      duration = int((now - inc_start).total_seconds())
      inc.duration_seconds = max(0, duration)
  except (ValueError, TypeError):
      pass
  \<close>
\<close>

definition close_incident :: "instant \<Rightarrow> uptime_incident \<Rightarrow> uptime_incident" where
  "close_incident now inc =
     (let inc1 = inc\<lparr>inc_end_time := Some (Iso now)\<rparr>
      in case fromisoformat (inc_start_time inc) of
           Inl _ \<Rightarrow> inc1
         | Inr inc_start \<Rightarrow>
             (let duration = whole_seconds (now - inc_start)
              in inc1\<lparr>inc_duration_seconds := Some (max 0 duration)\<rparr>))"

text \<open>
  \<open>insert_uptime_incident(network_id, start_time)\<close>: the session commits the new row, or
  rolls back and re-raises.
\<close>

definition insert_uptime_incident ::
  "bool \<Rightarrow> string \<Rightarrow> instant \<Rightarrow> uptime_incident list \<Rightarrow> py_error + uptime_incident list" where
  "insert_uptime_incident session_raises network_id start_time rows =
     (if session_raises then Inl DatabaseError
      else Inr (rows @ [\<lparr>inc_network_id = network_id, inc_start_time = Iso start_time,
                         inc_end_time = None, inc_duration_seconds = None,
                         inc_affected_devices = None\<rparr>]))"

text \<open>
  The recovery branch of \<open>update_cache\<close>: every open incident of the network is closed in
  one session, which commits or rolls back as a whole.
\<close>

definition close_open_incidents ::
  "bool \<Rightarrow> string \<Rightarrow> instant \<Rightarrow> uptime_incident list \<Rightarrow> py_error + uptime_incident list" where
  "close_open_incidents session_raises network_id current_time rows =
     (if session_raises then Inl DatabaseError
      else Inr (map (\<lambda>inc. if inc_network_id inc = network_id \<and> inc_end_time inc = None
                            then close_incident current_time inc else inc) rows))"

section \<open>The refresh cycle (update_cache, app/dashboard.py)\<close>

text \<open>
  The per-network entry of \<open>data_cache['networks']\<close>. A key the dict may lack is an
  \<open>option\<close>. The keys written by the cycle but read by none of the statements modelled
  here (device list, OS and frequency histograms, update stamps, node counts) are left
  out, as are the combined cache and the metrics table.
\<close>

record network_cache =
  nc_connected_users :: "conn_sample list"
  nc_signal_strength_avg :: "signal_sample list"
  nc_total_devices :: nat
  nc_wireless_devices :: nat
  nc_health_status :: "string option"
  nc_bandwidth_utilization :: real
  nc_offline_since :: "timestr option"
  nc_prev_health :: "string option"
  nc_uptime_24h :: real

definition new_network_cache :: network_cache where
  "new_network_cache =
     \<lparr>nc_connected_users = [], nc_signal_strength_avg = [], nc_total_devices = 0,
      nc_wireless_devices = 0, nc_health_status = None, nc_bandwidth_utilization = 0,
      nc_offline_since = None, nc_prev_health = None, nc_uptime_24h = 0\<rparr>"

text \<open>
  The process state: the refresh lock, the cache, the incident table, the alert engine,
  and counters of the calls of \<open>get_all_devices\<close> and of the snapshots written to disk.
\<close>

record dashboard =
  cache_lock :: bool
  networks :: "string \<rightharpoonup> network_cache"
  incidents :: "uptime_incident list"
  alerting :: alert_engine
  api_fetches :: nat
  disk_saves :: nat

text \<open>
  What the outside world answers while one network is processed. A device carries what
  the cycle reads of it: whether \<open>is_device_active\<close> holds, its wireless flag, and its
  signal reading when that parses to a number.
\<close>

record device =
  d_active :: bool
  d_wireless :: bool
  d_signal_dbm :: "real option"

text \<open>
  The node request raises, answers with a status other than 200, or answers 200 with
  the list of nodes.
\<close>

datatype nodes_fetch = NodesRaised | NodesHttpStatus nat | NodesData "string list"

record network_input =
  ni_id :: string
  ni_name :: string
  ni_active :: bool
  ni_devices :: "device list"
  ni_device_loop_raises :: bool
  ni_nodes :: nodes_fetch
  ni_speed :: "(real \<times> real) option"
  ni_close_raises :: bool
  ni_insert_incident_raises :: bool
  ni_first_offline_alert :: "py_error + timestr option"
  ni_health_alert_io :: alert_io
  ni_bandwidth_alert_io :: alert_io

record cycle_input =
  ci_current_time :: instant
  ci_networks :: "network_input list"

text \<open>
  Health from the node inventory (lines 665-693): healthy if every node is green,
  degraded if some are, offline if none; without node data, healthy if any device is
  active. The node statuses are the lower-cased status texts.
\<close>

definition node_health_status :: "nodes_fetch \<Rightarrow> nat \<Rightarrow> string" where
  "node_health_status nodes n_connected =
     (case nodes of
        NodesData eero_data \<Rightarrow>
          (if eero_data \<noteq> []
           then (let total_nodes = length eero_data;
                     green_nodes = length (filter (\<lambda>status. status = ''green'') eero_data)
                 in if green_nodes = total_nodes then ''healthy''
                    else if green_nodes > 0 then ''degraded'' else ''offline'')
           else if n_connected > 0 then ''healthy'' else ''offline'')
      | NodesHttpStatus code \<Rightarrow> (if n_connected > 0 then ''healthy'' else ''offline'')
      | NodesRaised \<Rightarrow> (if n_connected > 0 then ''healthy'' else ''offline''))"

text \<open>
  Bandwidth (lines 710-722): capacity is the rounded sum of the reported speeds, usage
  2.5 per active device; any exception gives 0.
\<close>

definition bandwidth_of :: "(real \<times> real) option \<Rightarrow> nat \<Rightarrow> real" where
  "bandwidth_of speed n_connected =
     (case speed of
        None \<Rightarrow> 0
      | Some (upload_mbps, download_mbps) \<Rightarrow>
          (let capacity_mbps = py_round (upload_mbps + download_mbps);
               usage_mbps = real n_connected * 2.5
           in if capacity_mbps > 0
              then (case calculate_bandwidth_utilization usage_mbps (real_of_int capacity_mbps) of
                      Inl _ \<Rightarrow> 0 | Inr bw_util \<Rightarrow> bw_util)
              else 0))"

text \<open>Truthiness of a cached text: a missing key, \<open>None\<close> and the empty string are false.\<close>

definition truthy :: "timestr option \<Rightarrow> bool" where
  "truthy v = (case v of None \<Rightarrow> False | Some (Unparsable s) \<Rightarrow> s \<noteq> [] | Some (Iso _) \<Rightarrow> True)"

text \<open>
  Uptime tracking (lines 729-789):
  \<^verbatim>\<open>
  prev_health = network_cache.get('_prev_health')
  if prev_health == 'offline' and health_status != 'offline':
      network_cache.pop('offline_since', None)
      try:
          with get_db_session() as session:
              open_incidents = (... network_id == network_id, end_time IS NULL).all()
              for inc in open_incidents: ... close ...
              session.commit()
      except Exception as e:
          logging.error(...)
  elif health_status == 'offline' and prev_health not in ('offline', None):
      network_cache['offline_since'] = current_time.isoformat()
      try:
          insert_uptime_incident(network_id=network_id, start_time=current_time.isoformat())
      except Exception as e:
          logging.error(...)
  if health_status == 'offline':
      try:
          ... first_alert = oldest 'offline' alert of the network ...
          if first_alert:
              network_cache['offline_since'] = first_alert.created_at
      except Exception:
          pass
      if not network_cache.get('offline_since'):
          network_cache['offline_since'] = current_time.isoformat()
  network_cache['_prev_health'] = health_status
  \<close>
  The answer of the alert query is an input (\<open>ni_first_offline_alert\<close>).
\<close>

definition track_uptime ::
  "network_input \<Rightarrow> string \<Rightarrow> instant \<Rightarrow> network_cache \<times> uptime_incident list
     \<Rightarrow> network_cache \<times> uptime_incident list" where
  "track_uptime ni health_status current_time st =
     (let network_cache = fst st; rows = snd st;
          prev_health = nc_prev_health network_cache;
          st1 =
            (if prev_health = Some ''offline'' \<and> health_status \<noteq> ''offline''
             then (network_cache\<lparr>nc_offline_since := None\<rparr>,
                   case close_open_incidents (ni_close_raises ni) (ni_id ni) current_time rows of
                     Inl _ \<Rightarrow> rows | Inr rows' \<Rightarrow> rows')
             else if health_status = ''offline''
                     \<and> prev_health \<noteq> Some ''offline'' \<and> prev_health \<noteq> None
             then (network_cache\<lparr>nc_offline_since := Some (Iso current_time)\<rparr>,
                   case insert_uptime_incident (ni_insert_incident_raises ni) (ni_id ni)
                          current_time rows of
                     Inl _ \<Rightarrow> rows | Inr rows' \<Rightarrow> rows')
             else (network_cache, rows));
          c1 = fst st1;
          c2 =
            (if health_status = ''offline''
             then (let c' = (case ni_first_offline_alert ni of
                               Inr (Some created_at) \<Rightarrow> c1\<lparr>nc_offline_since := Some created_at\<rparr>
                             | _ \<Rightarrow> c1)
                   in if \<not> truthy (nc_offline_since c')
                      then c'\<lparr>nc_offline_since := Some (Iso current_time)\<rparr> else c')
             else c1)
      in (c2\<lparr>nc_prev_health := Some health_status\<rparr>, snd st1))"

text \<open>Uptime percentage (lines 791-798): the share of samples with a nonzero count.\<close>

definition uptime_pct_of :: "conn_sample list \<Rightarrow> real" where
  "uptime_pct_of history =
     (if history \<noteq> []
      then (let online_points = length (filter (\<lambda>p. cs_count p > 0) history)
            in py_round1 (real online_points / real (length history) * 100))
      else 100)"

text \<open>
  \<^verbatim>\<open>
  if network_id not in data_cache['networks']:
      data_cache['networks'][network_id] = {'connected_users': [], ...}
  network_cache = data_cache['networks'][network_id]
  \<close>
\<close>

definition ensure_network_cache :: "string \<Rightarrow> dashboard \<Rightarrow> dashboard" where
  "ensure_network_cache network_id s =
     (if networks s network_id = None
      then s\<lparr>networks := (networks s)(network_id \<mapsto> new_network_cache)\<rparr>
      else s)"

definition network_cache_of :: "dashboard \<Rightarrow> string \<Rightarrow> network_cache" where
  "network_cache_of s network_id =
     (case networks s network_id of Some c \<Rightarrow> c | None \<Rightarrow> new_network_cache)"

text \<open>
  The signal values a cycle averages (lines 601-617): the readings of the wireless
  devices that parse to a number in the range from -100 to -10 dBm.
\<close>

definition network_signal_values_of :: "device list \<Rightarrow> real list" where
  "network_signal_values_of wireless_devices =
     filter (\<lambda>v. - 100 \<le> v \<and> v \<le> - 10) (List.map_filter d_signal_dbm wireless_devices)"

text \<open>
  The part of an iteration after the device loop (lines 643-820): time-series, health
  status, bandwidth, uptime tracking, uptime percentage and alerts. Every collaborator
  call in it is wrapped in its own handler, so it always runs to its end.
\<close>

definition record_network ::
  "(real \<Rightarrow> string) \<Rightarrow> instant \<Rightarrow> network_input \<Rightarrow> device list \<Rightarrow> device list
     \<Rightarrow> dashboard \<Rightarrow> dashboard" where
  "record_network fmt_1f current_time ni connected_devices wireless_devices s =
     (let network_id = ni_id ni;
          network_cache = network_cache_of s network_id;
          network_signal_values =
            network_signal_values_of wireless_devices;
          network_connected_users =
            update_connected_users (nc_connected_users network_cache) current_time
              (length connected_devices) (length wireless_devices);
          network_signal_strength_avg =
            update_signal_strength_avg (nc_signal_strength_avg network_cache)
              current_time network_signal_values;
          health_status = node_health_status (ni_nodes ni) (length connected_devices);
          c1 = network_cache
                 \<lparr>nc_connected_users := network_connected_users,
                  nc_signal_strength_avg := network_signal_strength_avg,
                  nc_total_devices := length connected_devices,
                  nc_wireless_devices := length wireless_devices,
                  nc_health_status := Some health_status\<rparr>;
          bw_util = bandwidth_of (ni_speed ni) (length connected_devices);
          c2 = c1\<lparr>nc_bandwidth_utilization := py_round1 bw_util\<rparr>;
          tracked = track_uptime ni health_status current_time (c2, incidents s);
          c3 = (fst tracked)\<lparr>nc_uptime_24h := uptime_pct_of (nc_connected_users (fst tracked))\<rparr>;
          alerted = process_network_alerts fmt_1f (ni_health_alert_io ni)
                      (ni_bandwidth_alert_io ni) network_id (ni_name ni)
                      health_status bw_util (alerting s)
      in s\<lparr>networks := (networks s)(network_id \<mapsto> c3),
           incidents := snd tracked,
           alerting := snd alerted\<rparr>)"

text \<open>
  One iteration of the loop over the active networks (lines 557-820):
  \<^verbatim>\<open>
  network_id = network.get('id')
  if not network_id:
      continue
  network_devices = eero_api.get_all_devices(network_id)
  if not network_devices:
      continue
  connected_devices = [d for d in network_devices if is_device_active(d)]
  wireless_devices = [d for d in connected_devices if d.get('wireless')]
  ... cache entry, device loop, and the rest ...
  \<close>
  The result says whether an exception left the iteration (and with it the loop),
  together with the state reached. Only the device loop can raise.
\<close>

definition process_network ::
  "(real \<Rightarrow> string) \<Rightarrow> instant \<Rightarrow> network_input \<Rightarrow> dashboard \<Rightarrow> py_error option \<times> dashboard" where
  "process_network fmt_1f current_time ni s =
     (let network_id = ni_id ni
      in if network_id = [] then (None, s)
         else
          (let s1 = s\<lparr>api_fetches := api_fetches s + 1\<rparr>;
               network_devices = ni_devices ni
           in if network_devices = [] then (None, s1)
              else
               (let connected_devices = filter d_active network_devices;
                    wireless_devices = filter d_wireless connected_devices;
                    s2 = ensure_network_cache network_id s1
                in if ni_device_loop_raises ni then (Some OtherError, s2)
                   else (None, record_network fmt_1f current_time ni connected_devices
                                 wireless_devices s2))))"

text \<open>The loop: an exception ends it, keeping what the earlier iterations did.\<close>

fun process_networks ::
  "(real \<Rightarrow> string) \<Rightarrow> instant \<Rightarrow> network_input list \<Rightarrow> dashboard \<Rightarrow> py_error option \<times> dashboard" where
  "process_networks fmt_1f current_time [] s = (None, s)"
| "process_networks fmt_1f current_time (ni # rest) s =
     (case process_network fmt_1f current_time ni s of
        (Some e, s') \<Rightarrow> (Some e, s')
      | (None, s') \<Rightarrow> process_networks fmt_1f current_time rest s')"

definition save_data_cache :: "dashboard \<Rightarrow> dashboard" where
  "save_data_cache s = s\<lparr>disk_saves := disk_saves s + 1\<rparr>"

text \<open>
  \<^verbatim>\<open>
  def update_cache():
      if not _cache_lock.acquire(blocking=False):
          logging.info("Cache update already in progress, skipping duplicate request")
          return
      try:
          ...
          active_networks = [n for n in networks if n.get('active', True)]
          if not active_networks:
              return
          ...
          for network in active_networks: ...
          ...
          save_data_cache()
      except Exception as e:
          ...
          save_data_cache()
      finally:
          _cache_lock.release()
  \<close>
  The call is split at the lock: the non-blocking acquire, the body run while the lock
  is held, and the release of the \<open>finally\<close> clause.
\<close>

definition try_acquire :: "dashboard \<Rightarrow> bool \<times> dashboard" where
  "try_acquire s = (if cache_lock s then (False, s) else (True, s\<lparr>cache_lock := True\<rparr>))"

definition release :: "dashboard \<Rightarrow> dashboard" where
  "release s = s\<lparr>cache_lock := False\<rparr>"

definition refresh_body :: "(real \<Rightarrow> string) \<Rightarrow> cycle_input \<Rightarrow> dashboard \<Rightarrow> dashboard" where
  "refresh_body fmt_1f inp s =
     (let active_networks = filter ni_active (ci_networks inp)
      in if active_networks = [] then s
         else (case process_networks fmt_1f (ci_current_time inp) active_networks s of
                 (None, s') \<Rightarrow> save_data_cache s'
               | (Some e, s') \<Rightarrow> save_data_cache s'))"

definition update_cache :: "(real \<Rightarrow> string) \<Rightarrow> cycle_input \<Rightarrow> dashboard \<Rightarrow> dashboard" where
  "update_cache fmt_1f inp s =
     (case try_acquire s of
        (False, s') \<Rightarrow> s'
      | (True, s') \<Rightarrow> release (refresh_body fmt_1f inp s'))"




text \<open>The previous-health marker of a network, \<open>None\<close> when the cache has no entry or no marker.\<close>

definition prev_health_of :: "dashboard \<Rightarrow> string \<Rightarrow> string option" where
  "prev_health_of s network_id =
     (case networks s network_id of None \<Rightarrow> None | Some c \<Rightarrow> nc_prev_health c)"



section \<open>Threads calling update_cache\<close>

text \<open>
  The background thread and the request handlers call \<open>update_cache\<close> on the same
  process state. A schedule lists, in the order they happen, the moments a thread reaches
  the non-blocking acquire (\<open>Call\<close>) and the moments a thread that holds the lock runs
  the body to its \<open>finally\<close> clause (\<open>Finish\<close>). The atomicity of
  \<open>Lock.acquire(blocking=False)\<close> is that of the primitive. \<open>running\<close> holds the threads
  inside the body, with the input of their cycle.
\<close>

datatype sched_event = Call nat cycle_input | Finish nat

fun sched_step ::
  "(real \<Rightarrow> string) \<Rightarrow> sched_event \<Rightarrow> dashboard \<times> (nat \<times> cycle_input) list
     \<Rightarrow> dashboard \<times> (nat \<times> cycle_input) list" where
  "sched_step fmt_1f (Call t inp) (s, running) =
     (if map_of running t \<noteq> None then (s, running)
      else case try_acquire s of
             (True, s') \<Rightarrow> (s', (t, inp) # running)
           | (False, s') \<Rightarrow> (s', running))"
| "sched_step fmt_1f (Finish t) (s, running) =
     (case map_of running t of
        None \<Rightarrow> (s, running)
      | Some inp \<Rightarrow> (release (refresh_body fmt_1f inp s), filter (\<lambda>p. fst p \<noteq> t) running))"

fun run_schedule ::
  "(real \<Rightarrow> string) \<Rightarrow> sched_event list \<Rightarrow> dashboard \<times> (nat \<times> cycle_input) list
     \<Rightarrow> dashboard \<times> (nat \<times> cycle_input) list" where
  "run_schedule fmt_1f [] st = st"
| "run_schedule fmt_1f (e # es) st = run_schedule fmt_1f es (sched_step fmt_1f e st)"

section \<open>Startup reconciliation (_close_orphaned_incidents, app/dashboard.py)\<close>

text \<open>
  \<^verbatim>\<open>
  net_cache = data_cache.get('networks', {}).get(str(network_id), {})
  health = net_cache.get('health_status', '')
  \<close>
\<close>

definition cached_health :: "dashboard \<Rightarrow> string \<Rightarrow> string" where
  "cached_health s network_id =
     (case networks s network_id of
        None \<Rightarrow> []
      | Some net_cache \<Rightarrow> (case nc_health_status net_cache of None \<Rightarrow> [] | Some h \<Rightarrow> h))"

text \<open>
  \<^verbatim>\<open>
  def _close_orphaned_incidents():
      try:
          now = get_timezone_aware_now()
          with get_db_session() as session:
              open_incidents = (session.query(UptimeIncident)
                                .filter(UptimeIncident.end_time.is_(None)).all())
              if not open_incidents:
                  return
              for inc in open_incidents:
                  network_id = inc.network_id
                  net_cache = ...
                  health = net_cache.get('health_status', '')
                  if health and health != 'offline':
                      inc.end_time = now.isoformat()
                      ... duration ...
              session.commit()
      except Exception as e:
          logging.error("Failed to close orphaned incidents: %s", e)
  \<close>
  The session commits every change or, when it raises, none.
\<close>

definition close_orphaned_incidents :: "bool \<Rightarrow> instant \<Rightarrow> dashboard \<Rightarrow> dashboard" where
  "close_orphaned_incidents session_raises now s =
     (if session_raises then s
      else if filter (\<lambda>inc. inc_end_time inc = None) (incidents s) = [] then s
      else s\<lparr>incidents :=
               map (\<lambda>inc. if inc_end_time inc = None
                           then (let health = cached_health s (inc_network_id inc)
                                 in if health \<noteq> [] \<and> health \<noteq> ''offline''
                                    then close_incident now inc else inc)
                           else inc)
                 (incidents s)\<rparr>)"


section \<open>Example inputs\<close>

text \<open>
  A fresh process (the default cache of \<open>initialize_data_cache\<close>, empty tables), and one
  network \<open>n1\<close> with one active wired device, observed with a given node inventory; the
  flag says whether the recovery session of that cycle raises.
\<close>

text \<open>
  A model of Python's format specification \<open>.1f\<close>, for the examples: the value rounded
  to one decimal place, written with its sign, integer digits, a point and one digit.
\<close>

fun digits_of :: "nat \<Rightarrow> string" where
  "digits_of n =
     (if n < 10 then [char_of (48 + n)] else digits_of (n div 10) @ [char_of (48 + n mod 10)])"

declare digits_of.simps [simp del]

definition format_1f :: "real \<Rightarrow> string" where
  "format_1f u =
     (let tenths = py_round (u * 10); m = nat \<bar>tenths\<bar>
      in (if tenths < 0 then ''-'' else []) @ digits_of (m div 10) @ ''.'' @ digits_of (m mod 10))"


definition initial_dashboard :: dashboard where
  "initial_dashboard =
     \<lparr>cache_lock = False, networks = Map.empty, incidents = [],
      alerting = \<lparr>previous_health = Map.empty, alerts_table = [], delivered = [], logged = []\<rparr>,
      api_fetches = 0, disk_saves = 0\<rparr>"

definition observed :: "instant \<Rightarrow> nodes_fetch \<Rightarrow> bool \<Rightarrow> cycle_input" where
  "observed t nodes close_raises =
     \<lparr>ci_current_time = t,
      ci_networks =
        [\<lparr>ni_id = ''n1'', ni_name = ''Cafe'', ni_active = True,
          ni_devices = [\<lparr>d_active = True, d_wireless = False, d_signal_dbm = None\<rparr>],
          ni_device_loop_raises = False, ni_nodes = nodes, ni_speed = None,
          ni_close_raises = close_raises, ni_insert_incident_raises = False,
          ni_first_offline_alert = Inr None,
          ni_health_alert_io = \<lparr>insert_alert_raises = False, notify_outcome = NotifyReturns False\<rparr>,
          ni_bandwidth_alert_io =
            \<lparr>insert_alert_raises = False, notify_outcome = NotifyReturns False\<rparr>\<rparr>]\<rparr>"


text \<open>
  A process whose cache entry for \<open>n1\<close> already holds 168 connectivity samples and 168
  signal samples, the oldest of each different from the others, and the answers for
  \<open>n1\<close> with one active wireless device at -50 dBm.
\<close>

definition full_series_dashboard :: dashboard where
  "full_series_dashboard =
     initial_dashboard
       \<lparr>networks :=
          [''n1'' \<mapsto> new_network_cache
             \<lparr>nc_connected_users :=
                \<lparr>cs_timestamp = Iso 0, cs_count = 1, cs_wireless_count = 0\<rparr>
                  # replicate 167 \<lparr>cs_timestamp = Iso 5, cs_count = 2, cs_wireless_count = 1\<rparr>,
              nc_signal_strength_avg :=
                \<lparr>ss_timestamp = Iso 0, ss_avg_dbm = - 40\<rparr>
                  # replicate 167 \<lparr>ss_timestamp = Iso 5, ss_avg_dbm = - 60\<rparr>\<rparr>]\<rparr>"

definition one_wireless_device :: network_input where
  "one_wireless_device =
     \<lparr>ni_id = ''n1'', ni_name = ''Cafe'', ni_active = True,
      ni_devices = [\<lparr>d_active = True, d_wireless = True, d_signal_dbm = Some (- 50)\<rparr>],
      ni_device_loop_raises = False, ni_nodes = NodesData [''green''], ni_speed = None,
      ni_close_raises = False, ni_insert_incident_raises = False,
      ni_first_offline_alert = Inr None,
      ni_health_alert_io = \<lparr>insert_alert_raises = False, notify_outcome = NotifyReturns False\<rparr>,
      ni_bandwidth_alert_io =
        \<lparr>insert_alert_raises = False, notify_outcome = NotifyReturns False\<rparr>\<rparr>"


section \<open>Theorems\<close>

text \<open>
  C6. For all device counts with \<open>online \<le> total\<close>, the classification is offline exactly
  when one of the counts is 0; otherwise it is degraded exactly when the ratio
  online/total is at most 1/2 and healthy exactly when the ratio is strictly above 1/2.
  In particular exactly 50 percent online is degraded.
\<close>

theorem calculate_health_status_spec:
  assumes "n \<le> t"
  shows "(calculate_health_status t n = Inr ''offline'' \<longleftrightarrow> t = 0 \<or> n = 0)
       \<and> (\<not> (t = 0 \<or> n = 0) \<longrightarrow>
            (calculate_health_status t n = Inr ''degraded''
               \<longleftrightarrow> real_of_int n / real_of_int t \<le> 0.5)
          \<and> (calculate_health_status t n = Inr ''healthy''
               \<longleftrightarrow> real_of_int n / real_of_int t > 0.5))
       \<and> (\<exists>s. calculate_health_status t n = Inr s)"
  by (auto simp: calculate_health_status_def py_truediv_def)

theorem calculate_health_status_spec_witness:
  "(5::int) \<le> 10 \<and> calculate_health_status 10 5 = Inr ''degraded''
   \<and> calculate_health_status 10 6 = Inr ''healthy''
   \<and> calculate_health_status 10 0 = Inr ''offline''"
  using calculate_health_status_spec [of 5 10] calculate_health_status_spec [of 6 10]
        calculate_health_status_spec [of 0 10]
  by simp

text \<open>
  C8. Bandwidth utilization is 0 when the capacity is not positive and otherwise
  usage/capacity*100 clamped into [0,100]; the result always lies in [0,100];
  \<open>bandwidth_utilization(1000, 100) = 100\<close> and \<open>bandwidth_utilization(x, 0) = 0\<close> for
  every \<open>x\<close>.
\<close>

theorem calculate_bandwidth_utilization_spec:
  "(capacity \<le> 0 \<longrightarrow> calculate_bandwidth_utilization usage capacity = Inr 0)
 \<and> (0 < capacity \<longrightarrow>
       calculate_bandwidth_utilization usage capacity
         = Inr (max 0 (min 100 (usage / capacity * 100))))
 \<and> (\<exists>r. calculate_bandwidth_utilization usage capacity = Inr r \<and> 0 \<le> r \<and> r \<le> 100)
 \<and> calculate_bandwidth_utilization 1000 100 = Inr 100
 \<and> calculate_bandwidth_utilization x 0 = Inr 0"
  by (auto simp: calculate_bandwidth_utilization_def py_truediv_def Let_def)

theorem calculate_bandwidth_utilization_spec_witness:
  "(-3::real) \<le> 0 \<and> calculate_bandwidth_utilization 7 (-3) = Inr 0
 \<and> (0::real) < 200 \<and> calculate_bandwidth_utilization 50 200 = Inr 25"
  using calculate_bandwidth_utilization_spec [of "-3" 7 0]
        calculate_bandwidth_utilization_spec [of 200 50 0]
  by simp


subsection \<open>Composite health score\<close>

lemma node_score_of_zero: "node_score_of g 0 = Inr 0"
  by (simp add: node_score_of_def)

lemma signal_score_of_total:
  "signal_score_of s = Inr (max 0 (min 100 ((s + 90) / 60 * 100)))"
  by (simp add: signal_score_of_def py_truediv_def)

lemma clamp_bounds: "0 \<le> max 0 (min 100 (k::int)) \<and> max 0 (min 100 k) \<le> 100"
  by simp

lemma compute_health_score_zero_nodes:
  "compute_health_score g 0 s u b
     = Inr (max 0 (min 100 (py_round (0 * 0.25 + max 0 (min 100 ((s + 90) / 60 * 100)) * 0.25
                                       + u * 0.25 + (100 - b) * 0.25))))"
  by (simp only: compute_health_score_def node_score_of_zero signal_score_of_total Let_def
        sum.case)

lemma py_round_tie_up: "py_round (75 / 2) = 38"
  by (simp add: py_round_def Let_def)

lemma compute_health_score_test_zero_nodes: "compute_health_score 0 0 (-60) 50 50 = Inr 38"
  unfolding compute_health_score_zero_nodes by (simp add: py_round_tie_up)

text \<open>
  C10. With \<open>total_nodes = 0\<close> and any \<open>green_nodes\<close>, \<open>compute_health_score\<close> raises no
  division error: the node component is 0, and the function returns an integer in
  [0,100] that depends only on the signal, uptime and bandwidth components (the value the
  repository's test expects at \<open>(0, 0, -60, 50, 50)\<close> is 38).
\<close>

theorem compute_health_score_total_at_zero_nodes:
  "compute_health_score g 0 s u b
     = Inr (max 0 (min 100 (py_round (0 * 0.25 + max 0 (min 100 ((s + 90) / 60 * 100)) * 0.25
                                       + u * 0.25 + (100 - b) * 0.25))))
 \<and> compute_health_score g 0 s u b = compute_health_score g' 0 s u b
 \<and> (\<exists>r. compute_health_score g 0 s u b = Inr r \<and> 0 \<le> r \<and> r \<le> 100)
 \<and> compute_health_score 0 0 (-60) 50 50 = Inr 38"
proof -
  have indep: "compute_health_score g 0 s u b = compute_health_score g' 0 s u b"
    by (simp only: compute_health_score_zero_nodes)
  have range: "\<exists>r. compute_health_score g 0 s u b = Inr r \<and> 0 \<le> r \<and> r \<le> 100"
    unfolding compute_health_score_zero_nodes using clamp_bounds by blast
  show ?thesis
    using compute_health_score_zero_nodes indep range compute_health_score_test_zero_nodes
    by blast
qed

subsection \<open>Bounded time-series\<close>

lemma py_last_n_evict: "length xs = 168 \<Longrightarrow> py_last_n 168 (xs @ [x]) = tl xs @ [x]"
  by (cases xs) (simp_all add: py_last_n_def)

lemma py_last_n_length: "length (py_last_n n xs) \<le> n"
  by (simp add: py_last_n_def)

lemma cap_length: "length (if length ys > 168 then py_last_n 168 ys else ys) \<le> 168"
  using py_last_n_length [of 168 ys] by (simp del: length_drop)

lemma cap_full:
  assumes "length xs = 168"
  shows "(if length (xs @ [x]) > 168 then py_last_n 168 (xs @ [x]) else xs @ [x]) = tl xs @ [x]"
  using assms py_last_n_evict [OF assms, of x] by simp

lemma tl_snoc_length: "length xs = 168 \<Longrightarrow> length (tl xs @ [x]) = 168"
  by simp

lemma update_connected_users_unfold:
  "update_connected_users series now c w
     = (if length (series @ [\<lparr>cs_timestamp = Iso now, cs_count = c, cs_wireless_count = w\<rparr>]) > 168
        then py_last_n 168
               (series @ [\<lparr>cs_timestamp = Iso now, cs_count = c, cs_wireless_count = w\<rparr>])
        else series @ [\<lparr>cs_timestamp = Iso now, cs_count = c, cs_wireless_count = w\<rparr>])"
  by (simp only: update_connected_users_def Let_def)

lemma update_connected_users_le: "length (update_connected_users series now c w) \<le> 168"
  unfolding update_connected_users_unfold by (rule cap_length)

lemma update_connected_users_full:
  assumes "length series = 168"
  shows "update_connected_users series now c w
           = tl series @ [\<lparr>cs_timestamp = Iso now, cs_count = c, cs_wireless_count = w\<rparr>]"
  unfolding update_connected_users_unfold using assms by (rule cap_full)

lemma update_signal_strength_avg_le:
  "length (update_signal_strength_avg sseries now vals) \<le> 168"
  unfolding update_signal_strength_avg_def Let_def by (rule cap_length)

lemma update_signal_strength_avg_full:
  assumes "length sseries = 168" and "vals \<noteq> []"
  shows "update_signal_strength_avg sseries now vals
           = tl sseries @ [\<lparr>ss_timestamp = Iso now,
                              ss_avg_dbm = py_round1 (sum_list vals / real (length vals))\<rparr>]"
proof -
  have "update_signal_strength_avg sseries now vals
      = (if length (sseries @ [\<lparr>ss_timestamp = Iso now,
                                ss_avg_dbm = py_round1 (sum_list vals / real (length vals))\<rparr>]) > 168
         then py_last_n 168 (sseries @ [\<lparr>ss_timestamp = Iso now,
                                ss_avg_dbm = py_round1 (sum_list vals / real (length vals))\<rparr>])
         else sseries @ [\<lparr>ss_timestamp = Iso now,
                                ss_avg_dbm = py_round1 (sum_list vals / real (length vals))\<rparr>])"
    using assms(2) by (simp only: update_signal_strength_avg_def Let_def if_True not_False_eq_True)
  then show ?thesis using cap_full [OF assms(1)] by simp
qed

lemma track_uptime_series:
  "nc_connected_users (fst (track_uptime ni h now (c, rows))) = nc_connected_users c
 \<and> nc_signal_strength_avg (fst (track_uptime ni h now (c, rows))) = nc_signal_strength_avg c"
  by (simp add: track_uptime_def Let_def split: sum.splits option.splits)

lemma record_network_series:
  "\<exists>c. networks (record_network f now ni conn wl s) (ni_id ni) = Some c
      \<and> nc_connected_users c
          = update_connected_users (nc_connected_users (network_cache_of s (ni_id ni))) now
              (length conn) (length wl)
      \<and> nc_signal_strength_avg c
          = update_signal_strength_avg (nc_signal_strength_avg (network_cache_of s (ni_id ni))) now
              (network_signal_values_of wl)"
  by (simp add: record_network_def Let_def track_uptime_series)

lemma network_cache_of_ensure:
  "network_cache_of (ensure_network_cache nid (s\<lparr>api_fetches := k\<rparr>)) nid = network_cache_of s nid"
  by (simp add: network_cache_of_def ensure_network_cache_def split: option.splits)

lemma process_network_runs_record_network:
  assumes "ni_id ni \<noteq> []" "ni_devices ni \<noteq> []" "\<not> ni_device_loop_raises ni"
  shows "process_network f now ni s
     = (None, record_network f now ni (filter d_active (ni_devices ni))
                (filter d_wireless (filter d_active (ni_devices ni)))
                (ensure_network_cache (ni_id ni) (s\<lparr>api_fetches := api_fetches s + 1\<rparr>)))"
  using assms by (simp add: process_network_def Let_def)

lemma record_network_stores_series:
  "\<exists>entry. networks (record_network f now ni conn wl s) (ni_id ni) = Some entry
      \<and> nc_connected_users entry
          = update_connected_users (nc_connected_users (network_cache_of s (ni_id ni))) now
              (length conn) (length wl)
      \<and> nc_signal_strength_avg entry
          = update_signal_strength_avg (nc_signal_strength_avg (network_cache_of s (ni_id ni)))
              now (network_signal_values_of wl)
      \<and> (length (nc_connected_users (network_cache_of s (ni_id ni))) = 168 \<longrightarrow>
            nc_connected_users entry
              = tl (nc_connected_users (network_cache_of s (ni_id ni)))
                  @ [\<lparr>cs_timestamp = Iso now, cs_count = length conn,
                      cs_wireless_count = length wl\<rparr>])
      \<and> (length (nc_signal_strength_avg (network_cache_of s (ni_id ni))) = 168
            \<and> network_signal_values_of wl \<noteq> [] \<longrightarrow>
            nc_signal_strength_avg entry
              = tl (nc_signal_strength_avg (network_cache_of s (ni_id ni)))
                  @ [\<lparr>ss_timestamp = Iso now,
                      ss_avg_dbm = py_round1 (sum_list (network_signal_values_of wl)
                                               / real (length (network_signal_values_of wl)))\<rparr>])
      \<and> length (nc_connected_users entry) \<le> 168
      \<and> length (nc_signal_strength_avg entry) \<le> 168"
proof -
  obtain entry where entry:
    "networks (record_network f now ni conn wl s) (ni_id ni) = Some entry"
    "nc_connected_users entry
       = update_connected_users (nc_connected_users (network_cache_of s (ni_id ni))) now
           (length conn) (length wl)"
    "nc_signal_strength_avg entry
       = update_signal_strength_avg (nc_signal_strength_avg (network_cache_of s (ni_id ni))) now
           (network_signal_values_of wl)"
    using record_network_series [of f now ni conn wl s] by blast
  have a: "length (nc_connected_users (network_cache_of s (ni_id ni))) = 168 \<longrightarrow>
            nc_connected_users entry
              = tl (nc_connected_users (network_cache_of s (ni_id ni)))
                  @ [\<lparr>cs_timestamp = Iso now, cs_count = length conn,
                      cs_wireless_count = length wl\<rparr>]"
    unfolding entry(2) using update_connected_users_full by blast
  have b: "length (nc_signal_strength_avg (network_cache_of s (ni_id ni))) = 168
            \<and> network_signal_values_of wl \<noteq> [] \<longrightarrow>
            nc_signal_strength_avg entry
              = tl (nc_signal_strength_avg (network_cache_of s (ni_id ni)))
                  @ [\<lparr>ss_timestamp = Iso now,
                      ss_avg_dbm = py_round1 (sum_list (network_signal_values_of wl)
                                               / real (length (network_signal_values_of wl)))\<rparr>]"
    unfolding entry(3) using update_signal_strength_avg_full by blast
  have c: "length (nc_connected_users entry) \<le> 168"
    unfolding entry(2) by (rule update_connected_users_le)
  have d: "length (nc_signal_strength_avg entry) \<le> 168"
    unfolding entry(3) by (rule update_signal_strength_avg_le)
  from entry a b c d show ?thesis by blast
qed

lemma process_network_stores_series:
  assumes "ni_id ni \<noteq> []" "ni_devices ni \<noteq> []" "\<not> ni_device_loop_raises ni"
  shows "\<exists>entry. networks (snd (process_network f now ni s)) (ni_id ni) = Some entry
      \<and> nc_connected_users entry
          = update_connected_users (nc_connected_users (network_cache_of s (ni_id ni))) now
              (length (filter d_active (ni_devices ni)))
              (length (filter d_wireless (filter d_active (ni_devices ni))))
      \<and> nc_signal_strength_avg entry
          = update_signal_strength_avg (nc_signal_strength_avg (network_cache_of s (ni_id ni)))
              now (network_signal_values_of (filter d_wireless (filter d_active (ni_devices ni))))
      \<and> (length (nc_connected_users (network_cache_of s (ni_id ni))) = 168 \<longrightarrow>
            nc_connected_users entry
              = tl (nc_connected_users (network_cache_of s (ni_id ni)))
                  @ [\<lparr>cs_timestamp = Iso now,
                      cs_count = length (filter d_active (ni_devices ni)),
                      cs_wireless_count
                        = length (filter d_wireless (filter d_active (ni_devices ni)))\<rparr>])
      \<and> (length (nc_signal_strength_avg (network_cache_of s (ni_id ni))) = 168
            \<and> network_signal_values_of (filter d_wireless (filter d_active (ni_devices ni))) \<noteq> []
           \<longrightarrow>
            nc_signal_strength_avg entry
              = tl (nc_signal_strength_avg (network_cache_of s (ni_id ni)))
                  @ [\<lparr>ss_timestamp = Iso now,
                      ss_avg_dbm = py_round1
                        (sum_list (network_signal_values_of
                                     (filter d_wireless (filter d_active (ni_devices ni))))
                         / real (length (network_signal_values_of
                                     (filter d_wireless (filter d_active (ni_devices ni))))))\<rparr>])
      \<and> length (nc_connected_users entry) \<le> 168
      \<and> length (nc_signal_strength_avg entry) \<le> 168"
  using record_network_stores_series
          [of f now ni "filter d_active (ni_devices ni)"
              "filter d_wireless (filter d_active (ni_devices ni))"
              "ensure_network_cache (ni_id ni) (s\<lparr>api_fetches := api_fetches s + 1\<rparr>)"]
  unfolding process_network_runs_record_network [OF assms] snd_conv network_cache_of_ensure
  .

text \<open>
  C5. Appending one sample to a connectivity or signal series that holds 168 entries
  leaves exactly 168 entries: the oldest one is dropped and the others keep their order,
  followed by the new sample. After the update a series never has more than 168 entries,
  whatever its length was before. The series stored in the network's cache entry after
  an iteration of the cycle are exactly these updates of the series stored before: with
  168 connectivity samples stored, the entry holds afterwards the same samples without
  the oldest, followed by the sample of this cycle, and likewise for the signal series
  when the cycle has a valid signal value.
\<close>

theorem time_series_bounded:
  "(length series = 168 \<longrightarrow>
      update_connected_users series now c w
        = tl series @ [\<lparr>cs_timestamp = Iso now, cs_count = c, cs_wireless_count = w\<rparr>]
      \<and> length (update_connected_users series now c w) = 168)
 \<and> (length sseries = 168 \<and> vals \<noteq> [] \<longrightarrow>
      update_signal_strength_avg sseries now vals
        = tl sseries @ [\<lparr>ss_timestamp = Iso now,
                           ss_avg_dbm = py_round1 (sum_list vals / real (length vals))\<rparr>]
      \<and> length (update_signal_strength_avg sseries now vals) = 168)
 \<and> length (update_connected_users series now c w) \<le> 168
 \<and> length (update_signal_strength_avg sseries now vals) \<le> 168
 \<and> (\<exists>entry. networks (record_network f now ni conn wl s) (ni_id ni) = Some entry
      \<and> nc_connected_users entry
          = update_connected_users (nc_connected_users (network_cache_of s (ni_id ni))) now
              (length conn) (length wl)
      \<and> nc_signal_strength_avg entry
          = update_signal_strength_avg (nc_signal_strength_avg (network_cache_of s (ni_id ni)))
              now (network_signal_values_of wl)
      \<and> (length (nc_connected_users (network_cache_of s (ni_id ni))) = 168 \<longrightarrow>
            nc_connected_users entry
              = tl (nc_connected_users (network_cache_of s (ni_id ni)))
                  @ [\<lparr>cs_timestamp = Iso now, cs_count = length conn,
                      cs_wireless_count = length wl\<rparr>])
      \<and> (length (nc_signal_strength_avg (network_cache_of s (ni_id ni))) = 168
            \<and> network_signal_values_of wl \<noteq> [] \<longrightarrow>
            nc_signal_strength_avg entry
              = tl (nc_signal_strength_avg (network_cache_of s (ni_id ni)))
                  @ [\<lparr>ss_timestamp = Iso now,
                      ss_avg_dbm = py_round1 (sum_list (network_signal_values_of wl)
                                               / real (length (network_signal_values_of wl)))\<rparr>])
      \<and> length (nc_connected_users entry) \<le> 168
      \<and> length (nc_signal_strength_avg entry) \<le> 168)
 \<and> (ni_id ni \<noteq> [] \<and> ni_devices ni \<noteq> [] \<and> \<not> ni_device_loop_raises ni \<longrightarrow>
      (\<exists>entry. networks (snd (process_network f now ni s)) (ni_id ni) = Some entry
      \<and> nc_connected_users entry
          = update_connected_users (nc_connected_users (network_cache_of s (ni_id ni))) now
              (length (filter d_active (ni_devices ni)))
              (length (filter d_wireless (filter d_active (ni_devices ni))))
      \<and> nc_signal_strength_avg entry
          = update_signal_strength_avg (nc_signal_strength_avg (network_cache_of s (ni_id ni)))
              now (network_signal_values_of (filter d_wireless (filter d_active (ni_devices ni))))
      \<and> (length (nc_connected_users (network_cache_of s (ni_id ni))) = 168 \<longrightarrow>
            nc_connected_users entry
              = tl (nc_connected_users (network_cache_of s (ni_id ni)))
                  @ [\<lparr>cs_timestamp = Iso now,
                      cs_count = length (filter d_active (ni_devices ni)),
                      cs_wireless_count
                        = length (filter d_wireless (filter d_active (ni_devices ni)))\<rparr>])
      \<and> (length (nc_signal_strength_avg (network_cache_of s (ni_id ni))) = 168
            \<and> network_signal_values_of (filter d_wireless (filter d_active (ni_devices ni))) \<noteq> []
           \<longrightarrow>
            nc_signal_strength_avg entry
              = tl (nc_signal_strength_avg (network_cache_of s (ni_id ni)))
                  @ [\<lparr>ss_timestamp = Iso now,
                      ss_avg_dbm = py_round1
                        (sum_list (network_signal_values_of
                                     (filter d_wireless (filter d_active (ni_devices ni))))
                         / real (length (network_signal_values_of
                                     (filter d_wireless (filter d_active (ni_devices ni))))))\<rparr>])
      \<and> length (nc_connected_users entry) \<le> 168
      \<and> length (nc_signal_strength_avg entry) \<le> 168))"
proof -
  have series:
    "(length series = 168 \<longrightarrow>
        update_connected_users series now c w
          = tl series @ [\<lparr>cs_timestamp = Iso now, cs_count = c, cs_wireless_count = w\<rparr>]
        \<and> length (update_connected_users series now c w) = 168)
   \<and> (length sseries = 168 \<and> vals \<noteq> [] \<longrightarrow>
        update_signal_strength_avg sseries now vals
          = tl sseries @ [\<lparr>ss_timestamp = Iso now,
                             ss_avg_dbm = py_round1 (sum_list vals / real (length vals))\<rparr>]
        \<and> length (update_signal_strength_avg sseries now vals) = 168)
   \<and> length (update_connected_users series now c w) \<le> 168
   \<and> length (update_signal_strength_avg sseries now vals) \<le> 168"
    using update_connected_users_full [of series now c w]
          update_signal_strength_avg_full [of sseries vals now]
          update_connected_users_le [of series now c w]
          update_signal_strength_avg_le [of sseries now vals]
          tl_snoc_length
    by metis
  show ?thesis
    by (intro conjI impI record_network_stores_series process_network_stores_series
          series [THEN conjunct1, rule_format]
          series [THEN conjunct2, THEN conjunct1, rule_format]
          series [THEN conjunct2, THEN conjunct2, THEN conjunct1]
          series [THEN conjunct2, THEN conjunct2, THEN conjunct2]) auto
qed

theorem time_series_bounded_witness:
  "length (\<lparr>cs_timestamp = Iso 0, cs_count = 1, cs_wireless_count = 0\<rparr>
            # replicate 167 \<lparr>cs_timestamp = Iso 5, cs_count = 2, cs_wireless_count = 1\<rparr>) = 168
 \<and> update_connected_users
       (\<lparr>cs_timestamp = Iso 0, cs_count = 1, cs_wireless_count = 0\<rparr>
          # replicate 167 \<lparr>cs_timestamp = Iso 5, cs_count = 2, cs_wireless_count = 1\<rparr>) 9 3 2
     = replicate 167 \<lparr>cs_timestamp = Iso 5, cs_count = 2, cs_wireless_count = 1\<rparr>
         @ [\<lparr>cs_timestamp = Iso 9, cs_count = 3, cs_wireless_count = 2\<rparr>]
 \<and> length (\<lparr>ss_timestamp = Iso 0, ss_avg_dbm = -40\<rparr>
            # replicate 167 \<lparr>ss_timestamp = Iso 5, ss_avg_dbm = -60\<rparr>) = 168
 \<and> [-50::real] \<noteq> []
 \<and> length (update_signal_strength_avg
       (\<lparr>ss_timestamp = Iso 0, ss_avg_dbm = -40\<rparr>
          # replicate 167 \<lparr>ss_timestamp = Iso 5, ss_avg_dbm = -60\<rparr>) 9 [-50]) = 168
 \<and> ni_id one_wireless_device \<noteq> [] \<and> ni_devices one_wireless_device \<noteq> []
 \<and> \<not> ni_device_loop_raises one_wireless_device
 \<and> length (nc_connected_users (network_cache_of full_series_dashboard ''n1'')) = 168
 \<and> length (nc_signal_strength_avg (network_cache_of full_series_dashboard ''n1'')) = 168
 \<and> map_option nc_connected_users
       (networks (snd (process_network format_1f 9 one_wireless_device full_series_dashboard))
          ''n1'')
     = Some (replicate 167 \<lparr>cs_timestamp = Iso 5, cs_count = 2, cs_wireless_count = 1\<rparr>
               @ [\<lparr>cs_timestamp = Iso 9, cs_count = 1, cs_wireless_count = 1\<rparr>])
 \<and> map_option nc_signal_strength_avg
       (networks (snd (process_network format_1f 9 one_wireless_device full_series_dashboard))
          ''n1'')
     = Some (replicate 167 \<lparr>ss_timestamp = Iso 5, ss_avg_dbm = - 60\<rparr>
               @ [\<lparr>ss_timestamp = Iso 9, ss_avg_dbm = - 50\<rparr>])"
proof -
  have helpers:
    "length (\<lparr>cs_timestamp = Iso 0, cs_count = 1, cs_wireless_count = 0\<rparr>
                # replicate 167 \<lparr>cs_timestamp = Iso 5, cs_count = 2, cs_wireless_count = 1\<rparr>) = 168
     \<and> update_connected_users
           (\<lparr>cs_timestamp = Iso 0, cs_count = 1, cs_wireless_count = 0\<rparr>
              # replicate 167 \<lparr>cs_timestamp = Iso 5, cs_count = 2, cs_wireless_count = 1\<rparr>) 9 3 2
         = replicate 167 \<lparr>cs_timestamp = Iso 5, cs_count = 2, cs_wireless_count = 1\<rparr>
             @ [\<lparr>cs_timestamp = Iso 9, cs_count = 3, cs_wireless_count = 2\<rparr>]
     \<and> length (\<lparr>ss_timestamp = Iso 0, ss_avg_dbm = -40\<rparr>
                # replicate 167 \<lparr>ss_timestamp = Iso 5, ss_avg_dbm = -60\<rparr>) = 168
     \<and> [-50::real] \<noteq> []
     \<and> length (update_signal_strength_avg
           (\<lparr>ss_timestamp = Iso 0, ss_avg_dbm = -40\<rparr>
              # replicate 167 \<lparr>ss_timestamp = Iso 5, ss_avg_dbm = -60\<rparr>) 9 [-50]) = 168"
    using time_series_bounded
      [of "\<lparr>cs_timestamp = Iso 0, cs_count = 1, cs_wireless_count = 0\<rparr>
              # replicate 167 \<lparr>cs_timestamp = Iso 5, cs_count = 2, cs_wireless_count = 1\<rparr>"
          9 3 2
          "\<lparr>ss_timestamp = Iso 0, ss_avg_dbm = -40\<rparr>
            # replicate 167 \<lparr>ss_timestamp = Iso 5, ss_avg_dbm = -60\<rparr>" "[-50]"]
    by simp

  have id: "ni_id one_wireless_device = ''n1''"
    and devs: "ni_devices one_wireless_device
                 = [\<lparr>d_active = True, d_wireless = True, d_signal_dbm = Some (- 50)\<rparr>]"
    and loop: "\<not> ni_device_loop_raises one_wireless_device"
    by (simp_all add: one_wireless_device_def)
  have old: "network_cache_of full_series_dashboard ''n1''
      = new_network_cache
             \<lparr>nc_connected_users :=
                \<lparr>cs_timestamp = Iso 0, cs_count = 1, cs_wireless_count = 0\<rparr>
                  # replicate 167 \<lparr>cs_timestamp = Iso 5, cs_count = 2, cs_wireless_count = 1\<rparr>,
              nc_signal_strength_avg :=
                \<lparr>ss_timestamp = Iso 0, ss_avg_dbm = - 40\<rparr>
                  # replicate 167 \<lparr>ss_timestamp = Iso 5, ss_avg_dbm = - 60\<rparr>\<rparr>"
    by (simp add: network_cache_of_def full_series_dashboard_def)
  have vals: "network_signal_values_of
                (filter d_wireless (filter d_active (ni_devices one_wireless_device))) = [- 50]"
    by (simp add: devs network_signal_values_of_def List.map_filter_def)
  have avg: "py_round1 (sum_list [- 50] / real (length [- 50 :: real])) = - 50"
    by (simp add: py_round1_def py_round_def Let_def)
  have hyp: "ni_id one_wireless_device \<noteq> [] \<and> ni_devices one_wireless_device \<noteq> []
               \<and> \<not> ni_device_loop_raises one_wireless_device"
    by (simp add: one_wireless_device_def)
  from time_series_bounded [where now = 9 and f = format_1f and ni = one_wireless_device
                                 and s = full_series_dashboard,
                               THEN conjunct2, THEN conjunct2, THEN conjunct2, THEN conjunct2,
                               THEN conjunct2, THEN mp, OF hyp]
  obtain entry where entry:
    "networks (snd (process_network format_1f 9 one_wireless_device full_series_dashboard))
       (ni_id one_wireless_device) = Some entry"
    "length (nc_connected_users
               (network_cache_of full_series_dashboard (ni_id one_wireless_device))) = 168 \<longrightarrow>
       nc_connected_users entry
         = tl (nc_connected_users
                 (network_cache_of full_series_dashboard (ni_id one_wireless_device)))
             @ [\<lparr>cs_timestamp = Iso 9,
                 cs_count = length (filter d_active (ni_devices one_wireless_device)),
                 cs_wireless_count
                   = length (filter d_wireless (filter d_active (ni_devices one_wireless_device)))\<rparr>]"
    "length (nc_signal_strength_avg
               (network_cache_of full_series_dashboard (ni_id one_wireless_device))) = 168
       \<and> network_signal_values_of
            (filter d_wireless (filter d_active (ni_devices one_wireless_device))) \<noteq> []
     \<longrightarrow> nc_signal_strength_avg entry
         = tl (nc_signal_strength_avg
                 (network_cache_of full_series_dashboard (ni_id one_wireless_device)))
             @ [\<lparr>ss_timestamp = Iso 9,
                 ss_avg_dbm = py_round1
                   (sum_list (network_signal_values_of
                      (filter d_wireless (filter d_active (ni_devices one_wireless_device))))
                    / real (length (network_signal_values_of
                      (filter d_wireless (filter d_active (ni_devices one_wireless_device))))))\<rparr>]"
    by blast
  from entry(2) have c: "nc_connected_users entry
      = replicate 167 \<lparr>cs_timestamp = Iso 5, cs_count = 2, cs_wireless_count = 1\<rparr>
               @ [\<lparr>cs_timestamp = Iso 9, cs_count = 1, cs_wireless_count = 1\<rparr>]"
    by (simp add: id old devs)
  from entry(3) have g: "nc_signal_strength_avg entry
      = replicate 167 \<lparr>ss_timestamp = Iso 5, ss_avg_dbm = - 60\<rparr>
               @ [\<lparr>ss_timestamp = Iso 9, ss_avg_dbm = - 50\<rparr>]"
    unfolding vals avg by (simp add: id old)
  have cycle:
    "ni_id one_wireless_device \<noteq> [] \<and> ni_devices one_wireless_device \<noteq> []
     \<and> \<not> ni_device_loop_raises one_wireless_device
     \<and> length (nc_connected_users (network_cache_of full_series_dashboard ''n1'')) = 168
     \<and> length (nc_signal_strength_avg (network_cache_of full_series_dashboard ''n1'')) = 168
     \<and> map_option nc_connected_users
           (networks (snd (process_network format_1f 9 one_wireless_device full_series_dashboard))
              ''n1'')
         = Some (replicate 167 \<lparr>cs_timestamp = Iso 5, cs_count = 2, cs_wireless_count = 1\<rparr>
                   @ [\<lparr>cs_timestamp = Iso 9, cs_count = 1, cs_wireless_count = 1\<rparr>])
     \<and> map_option nc_signal_strength_avg
           (networks (snd (process_network format_1f 9 one_wireless_device full_series_dashboard))
              ''n1'')
         = Some (replicate 167 \<lparr>ss_timestamp = Iso 5, ss_avg_dbm = - 60\<rparr>
                   @ [\<lparr>ss_timestamp = Iso 9, ss_avg_dbm = - 50\<rparr>])"
      using entry(1) c g loop by (simp add: id devs old)
  from helpers cycle show ?thesis by blast
qed

subsection \<open>Alert engine\<close>

lemma returning_apply: "returning x w = (Inr x, w)"
  by (simp add: returning_def)

lemma logging_apply: "logging entry w = (Inr (), w\<lparr>logged := logged w @ [entry]\<rparr>)"
  by (simp add: logging_def)

lemma and_then_after_total:
  "fst (m w) = Inr x \<Longrightarrow> and_then m (\<lambda>_. returning r) w = (Inr r, snd (m w))"
  by (cases "m w") (auto simp: and_then_def returning_def)

lemma persist_and_notify_cases:
  "persist_and_notify io a w =
     (Inr (),
      if insert_alert_raises io then w\<lparr>logged := logged w @ [LogPersistFailed DatabaseError]\<rparr>
      else case notify_outcome io of
             NotifyRaises \<Rightarrow>
               w\<lparr>alerts_table := alerts_table w @ [a],
                 logged := logged w @ [LogAlertGenerated (a_message a), LogPersistFailed NotifyError]\<rparr>
           | NotifyReturns sent \<Rightarrow>
               w\<lparr>alerts_table := alerts_table w @ [a],
                 logged := logged w @ [LogAlertGenerated (a_message a)],
                 delivered := (if sent then delivered w @ [a] else delivered w)\<rparr>)"
  by (cases "notify_outcome io"; cases "insert_alert_raises io")
     (auto simp: persist_and_notify_def try_except_def and_then_def insert_alert_def
        notify_alert_def logging_def returning_def raising_def split: bool.splits)

lemma persist_and_notify_bandwidth_cases:
  "persist_and_notify_bandwidth io a w =
     (Inr (),
      if insert_alert_raises io
      then w\<lparr>logged := logged w @ [LogBandwidthPersistFailed DatabaseError]\<rparr>
      else case notify_outcome io of
             NotifyRaises \<Rightarrow>
               w\<lparr>alerts_table := alerts_table w @ [a],
                 logged := logged w @ [LogBandwidthAlert (a_message a),
                                 LogBandwidthPersistFailed NotifyError]\<rparr>
           | NotifyReturns sent \<Rightarrow>
               w\<lparr>alerts_table := alerts_table w @ [a],
                 logged := logged w @ [LogBandwidthAlert (a_message a)],
                 delivered := (if sent then delivered w @ [a] else delivered w)\<rparr>)"
  by (cases "notify_outcome io"; cases "insert_alert_raises io")
     (auto simp: persist_and_notify_bandwidth_def try_except_def and_then_def insert_alert_def
        notify_alert_def logging_def returning_def raising_def split: bool.splits)

lemma persist_and_notify_no_raise: "fst (persist_and_notify io a w) = Inr ()"
  by (simp add: persist_and_notify_cases)

lemma persist_and_notify_bandwidth_no_raise:
  "fst (persist_and_notify_bandwidth io a w) = Inr ()"
  by (simp add: persist_and_notify_bandwidth_cases)

lemma persist_and_notify_previous_health:
  "previous_health (snd (persist_and_notify io a w)) = previous_health w"
  by (simp add: persist_and_notify_cases split: notify_result.splits)

lemma persist_and_notify_alerts_table:
  "alerts_table (snd (persist_and_notify io a w))
     = alerts_table w @ (if insert_alert_raises io then [] else [a])"
  by (simp add: persist_and_notify_cases split: notify_result.splits)

lemma check_health_transition_result:
  "fst (check_health_transition io nid name new w)
     = Inr (spec_health_alert (previous_health w nid) nid name new)"
  unfolding check_health_transition_def Let_def spec_health_alert_def
  by (simp add: and_then_after_total persist_and_notify_no_raise returning_apply logging_apply)

lemma check_health_transition_previous_health:
  "previous_health (snd (check_health_transition io nid name new w))
     = (previous_health w)(nid \<mapsto> new)"
  unfolding check_health_transition_def Let_def
  by (simp add: and_then_after_total persist_and_notify_no_raise returning_apply logging_apply
        persist_and_notify_previous_health)

lemma check_health_transition_alerts_table:
  "alerts_table (snd (check_health_transition io nid name new w))
     = alerts_table w @
         (case spec_health_alert (previous_health w nid) nid name new of
            None \<Rightarrow> [] | Some a \<Rightarrow> if insert_alert_raises io then [] else [a])"
  unfolding check_health_transition_def Let_def spec_health_alert_def
  by (simp add: and_then_after_total persist_and_notify_no_raise returning_apply logging_apply
        persist_and_notify_alerts_table)

lemma check_bandwidth_alert_result:
  "fst (check_bandwidth_alert fmt io nid name u w)
     = Inr (if u > 95 then Some (bandwidth_alert fmt nid name u) else None)"
  unfolding check_bandwidth_alert_def
  by (simp add: and_then_after_total persist_and_notify_bandwidth_no_raise returning_apply)

lemma observe_statuses_step:
  "observe_statuses nid name ((io, new) # rest) w =
     (fst (check_health_transition io nid name new w)
        # fst (observe_statuses nid name rest (snd (check_health_transition io nid name new w))),
      snd (observe_statuses nid name rest (snd (check_health_transition io nid name new w))))"
  by (simp add: case_prod_beta)

lemma observe_four_statuses:
  assumes "previous_health w n = None"
  shows "fst (observe_statuses n name
           [(io1, ''healthy''), (io2, ''degraded''), (io3, ''offline''), (io4, ''healthy'')] w)
         = [Inr None, Inr (Some (degraded_alert n name)), Inr (Some (offline_alert n name)),
            Inr None]"
  using assms
  by (simp only: observe_statuses_step observe_statuses.simps fst_conv snd_conv
        check_health_transition_result check_health_transition_previous_health)
     (simp add: spec_health_alert_def)

lemma observe_four_statuses_rows:
  assumes "previous_health w n = None"
  shows "alerts_table (snd (observe_statuses n name
           [(io1, ''healthy''), (io2, ''degraded''), (io3, ''offline''), (io4, ''healthy'')] w))
         = alerts_table w @ (if insert_alert_raises io2 then [] else [degraded_alert n name])
             @ (if insert_alert_raises io3 then [] else [offline_alert n name])"
  using assms
  by (simp only: observe_statuses_step observe_statuses.simps fst_conv snd_conv
        check_health_transition_alerts_table check_health_transition_previous_health)
     (simp add: spec_health_alert_def)

lemma degraded_needs_healthy:
  "previous_health w n \<noteq> Some ''healthy''
     \<Longrightarrow> fst (check_health_transition io n name ''degraded'' w) = Inr None"
  by (simp add: check_health_transition_result spec_health_alert_def)

text \<open>
  C2. One network, no prior status, observed as healthy, degraded, offline, healthy:
  the four calls return no alert, the degraded warning, the offline critical alert and
  no alert, in this order, whatever the collaborators do; the rows persisted are these
  two alerts (each unless its insert raised). A change to degraded from a prior status
  other than healthy returns no alert.
\<close>

theorem health_sequence_emits_two_alerts:
  assumes "previous_health w n = None"
  shows "fst (observe_statuses n name
           [(io1, ''healthy''), (io2, ''degraded''), (io3, ''offline''), (io4, ''healthy'')] w)
         = [Inr None, Inr (Some (degraded_alert n name)), Inr (Some (offline_alert n name)),
            Inr None]
       \<and> a_alert_type (degraded_alert n name) = ''degraded''
       \<and> a_severity (degraded_alert n name) = ''warning''
       \<and> a_alert_type (offline_alert n name) = ''offline''
       \<and> a_severity (offline_alert n name) = ''critical''
       \<and> alerts_table (snd (observe_statuses n name
           [(io1, ''healthy''), (io2, ''degraded''), (io3, ''offline''), (io4, ''healthy'')] w))
         = alerts_table w @ (if insert_alert_raises io2 then [] else [degraded_alert n name])
             @ (if insert_alert_raises io3 then [] else [offline_alert n name])
       \<and> (previous_health w' n \<noteq> Some ''healthy''
            \<longrightarrow> fst (check_health_transition io n name ''degraded'' w') = Inr None)"
  using observe_four_statuses [OF assms] observe_four_statuses_rows [OF assms]
        degraded_needs_healthy [of w' n io name]
  by (simp add: degraded_alert_def offline_alert_def)

theorem health_sequence_emits_two_alerts_witness:
  "previous_health \<lparr>previous_health = Map.empty, alerts_table = [], delivered = [], logged = []\<rparr>
     ''net1'' = None
 \<and> fst (observe_statuses ''net1'' ''Cafe''
        [(\<lparr>insert_alert_raises = False, notify_outcome = NotifyReturns True\<rparr>, ''healthy''),
         (\<lparr>insert_alert_raises = False, notify_outcome = NotifyReturns True\<rparr>, ''degraded''),
         (\<lparr>insert_alert_raises = False, notify_outcome = NotifyReturns True\<rparr>, ''offline''),
         (\<lparr>insert_alert_raises = False, notify_outcome = NotifyReturns True\<rparr>, ''healthy'')]
        \<lparr>previous_health = Map.empty, alerts_table = [], delivered = [], logged = []\<rparr>)
     = [Inr None, Inr (Some (degraded_alert ''net1'' ''Cafe'')),
        Inr (Some (offline_alert ''net1'' ''Cafe'')), Inr None]
 \<and> previous_health \<lparr>previous_health = [''net1'' \<mapsto> ''offline''], alerts_table = [],
                      delivered = [], logged = []\<rparr> ''net1'' \<noteq> Some ''healthy''
 \<and> fst (check_health_transition
          \<lparr>insert_alert_raises = False, notify_outcome = NotifyReturns True\<rparr>
          ''net1'' ''Cafe'' ''degraded''
          \<lparr>previous_health = [''net1'' \<mapsto> ''offline''], alerts_table = [],
            delivered = [], logged = []\<rparr>) = Inr None"
  using health_sequence_emits_two_alerts
    [of "\<lparr>previous_health = Map.empty, alerts_table = [], delivered = [], logged = []\<rparr>"
        "''net1''" "''Cafe''"
        "\<lparr>insert_alert_raises = False, notify_outcome = NotifyReturns True\<rparr>"
        "\<lparr>insert_alert_raises = False, notify_outcome = NotifyReturns True\<rparr>"
        "\<lparr>insert_alert_raises = False, notify_outcome = NotifyReturns True\<rparr>"
        "\<lparr>insert_alert_raises = False, notify_outcome = NotifyReturns True\<rparr>"
        "\<lparr>previous_health = [''net1'' \<mapsto> ''offline''], alerts_table = [],
          delivered = [], logged = []\<rparr>"
        "\<lparr>insert_alert_raises = False, notify_outcome = NotifyReturns True\<rparr>"]
  by simp

text \<open>
  C7. Whatever the alert insert and the notification do (commit, raise, send, not send),
  \<open>check_health_transition\<close> and \<open>check_bandwidth_alert\<close> return normally, and the value
  returned is the alert decided, the same as when both collaborators succeed. When the
  insert raises, the failure is logged and no row is written.
\<close>

theorem alert_failures_do_not_propagate:
  "fst (check_health_transition io nid name new w)
     = Inr (spec_health_alert (previous_health w nid) nid name new)
 \<and> fst (check_health_transition io nid name new w)
     = fst (check_health_transition
              \<lparr>insert_alert_raises = False, notify_outcome = NotifyReturns True\<rparr>
              nid name new w)
 \<and> fst (check_bandwidth_alert fmt io nid name u w)
     = Inr (if u > 95 then Some (bandwidth_alert fmt nid name u) else None)
 \<and> fst (check_bandwidth_alert fmt io nid name u w)
     = fst (check_bandwidth_alert fmt
              \<lparr>insert_alert_raises = False, notify_outcome = NotifyReturns True\<rparr>
              nid name u w)
 \<and> (insert_alert_raises io \<longrightarrow>
       persist_and_notify io a w
         = (Inr (), w\<lparr>logged := logged w @ [LogPersistFailed DatabaseError]\<rparr>)
     \<and> persist_and_notify_bandwidth io a w
         = (Inr (), w\<lparr>logged := logged w @ [LogBandwidthPersistFailed DatabaseError]\<rparr>))"
  by (simp only: check_health_transition_result check_bandwidth_alert_result
        persist_and_notify_cases persist_and_notify_bandwidth_cases) simp

theorem alert_failures_do_not_propagate_witness:
  "insert_alert_raises \<lparr>insert_alert_raises = True, notify_outcome = NotifyRaises\<rparr>
 \<and> fst (check_health_transition \<lparr>insert_alert_raises = True, notify_outcome = NotifyRaises\<rparr>
          ''net1'' ''Cafe'' ''offline''
          \<lparr>previous_health = [''net1'' \<mapsto> ''healthy''], alerts_table = [],
            delivered = [], logged = []\<rparr>)
     = Inr (Some (offline_alert ''net1'' ''Cafe''))
 \<and> fst (check_bandwidth_alert format_1f \<lparr>insert_alert_raises = True, notify_outcome = NotifyRaises\<rparr>
          ''net1'' ''Cafe'' 96
          \<lparr>previous_health = [''net1'' \<mapsto> ''healthy''], alerts_table = [],
            delivered = [], logged = []\<rparr>)
     = Inr (Some (bandwidth_alert format_1f ''net1'' ''Cafe'' 96))"
  using alert_failures_do_not_propagate
    [of "\<lparr>insert_alert_raises = True, notify_outcome = NotifyRaises\<rparr>"
        "''net1''" "''Cafe''" "''offline''"
        "\<lparr>previous_health = [''net1'' \<mapsto> ''healthy''], alerts_table = [],
          delivered = [], logged = []\<rparr>" format_1f 96]
  by (simp add: spec_health_alert_def)

text \<open>
  C9. After any call \<open>check_health_transition(network_id, name, new_status)\<close> the
  last-seen map holds \<open>new_status\<close> for that network, whatever was there before and
  whatever the collaborators did; a further call with the same status for the same
  network returns no alert.
\<close>

theorem status_map_updated_unconditionally:
  "previous_health (snd (check_health_transition io nid name new w)) nid = Some new
 \<and> fst (check_health_transition io' nid name' new
          (snd (check_health_transition io nid name new w))) = Inr None"
  by (simp add: check_health_transition_result check_health_transition_previous_health
        spec_health_alert_def)


subsection \<open>Incident state machine\<close>

lemma close_incident_fields:
  "inc_end_time (close_incident now inc) = Some (Iso now)
 \<and> inc_network_id (close_incident now inc) = inc_network_id inc
 \<and> inc_start_time (close_incident now inc) = inc_start_time inc"
  by (simp add: close_incident_def Let_def fromisoformat_def split: timestr.splits)





lemma new_cache_prev: "nc_prev_health new_network_cache = None"
  by (simp add: new_network_cache_def)


lemma ensure_network_cache_proj:
  "incidents (ensure_network_cache nid s) = incidents s
 \<and> prev_health_of (ensure_network_cache nid s) = prev_health_of s
 \<and> cache_lock (ensure_network_cache nid s) = cache_lock s"
  by (auto simp: ensure_network_cache_def prev_health_of_def fun_eq_iff new_cache_prev)




lemma record_network_lock: "cache_lock (record_network f now ni conn wl s) = cache_lock s"
  by (simp add: record_network_def Let_def)

lemma process_network_lock: "cache_lock (snd (process_network f now ni s)) = cache_lock s"
  by (simp add: process_network_def Let_def record_network_lock ensure_network_cache_proj)
















subsection \<open>Mutual exclusion\<close>

lemma update_cache_locked: "cache_lock s \<Longrightarrow> update_cache f inp s = s"
  by (simp add: update_cache_def try_acquire_def)

lemma process_networks_lock: "cache_lock (snd (process_networks f now nis s)) = cache_lock s"
proof (induction nis arbitrary: s)
  case Nil
  then show ?case by simp
next
  case (Cons ni nis)
  show ?case
  proof (cases "process_network f now ni s")
    case (Pair r s')
    then have "cache_lock s' = cache_lock s"
      using process_network_lock [of f now ni s] by simp
    with Pair Cons.IH [of s'] show ?thesis by (cases r) simp_all
  qed
qed

lemma refresh_body_lock: "cache_lock (refresh_body f inp s) = cache_lock s"
  using process_networks_lock [of f "ci_current_time inp" "filter ni_active (ci_networks inp)" s]
  by (auto simp: refresh_body_def Let_def save_data_cache_def split: prod.splits option.splits)

lemma filter_single_running:
  "length running \<le> 1 \<Longrightarrow> map_of running t = Some inp
     \<Longrightarrow> filter (\<lambda>p. fst p \<noteq> t) running = []"
  by (cases running) (auto split: if_splits)

lemma sched_step_invariant:
  assumes "length (snd st) \<le> 1 \<and> (cache_lock (fst st) \<longleftrightarrow> snd st \<noteq> [])"
  shows "length (snd (sched_step f e st)) \<le> 1
       \<and> (cache_lock (fst (sched_step f e st)) \<longleftrightarrow> snd (sched_step f e st) \<noteq> [])"
proof (cases st)
  case (Pair s running)
  show ?thesis
  proof (cases e)
    case (Call t inp)
    with Pair assms show ?thesis
      by (auto simp: try_acquire_def)
  next
    case (Finish t)
    show ?thesis
    proof (cases "map_of running t")
      case None
      with Pair Finish assms show ?thesis by simp
    next
      case (Some inp)
      with Pair assms have "filter (\<lambda>p. fst p \<noteq> t) running = []"
        by (intro filter_single_running) simp_all
      with Pair Finish Some show ?thesis by (simp add: release_def)
    qed
  qed
qed

lemma run_schedule_invariant:
  assumes "length (snd st) \<le> 1 \<and> (cache_lock (fst st) \<longleftrightarrow> snd st \<noteq> [])"
  shows "length (snd (run_schedule f evs st)) \<le> 1
       \<and> (cache_lock (fst (run_schedule f evs st)) \<longleftrightarrow> snd (run_schedule f evs st) \<noteq> [])"
  using assms
proof (induction evs arbitrary: st)
  case Nil
  then show ?case by simp
next
  case (Cons e evs)
  from Cons.IH [OF sched_step_invariant [OF Cons.prems, of f e]] show ?case by simp
qed

lemma call_while_locked:
  "cache_lock s \<Longrightarrow> sched_step f (Call t inp) (s, running) = (s, running)"
  by (simp add: try_acquire_def)

lemma call_then_finish:
  assumes "\<not> cache_lock s"
  shows "run_schedule f [Call t inp, Finish t] (s, []) = (update_cache f inp s, [])"
proof -
  have a: "try_acquire s = (True, s\<lparr>cache_lock := True\<rparr>)"
    using assms by (simp add: try_acquire_def)
  have "sched_step f (Call t inp) (s, []) = (s\<lparr>cache_lock := True\<rparr>, [(t, inp)])"
    by (simp add: a)
  moreover have "sched_step f (Finish t) (s\<lparr>cache_lock := True\<rparr>, [(t, inp)])
      = (release (refresh_body f inp (s\<lparr>cache_lock := True\<rparr>)), [])"
    by simp
  moreover have "update_cache f inp s = release (refresh_body f inp (s\<lparr>cache_lock := True\<rparr>))"
    by (simp add: update_cache_def a)
  ultimately show ?thesis by simp
qed

lemma run_schedule_from_idle:
  "\<not> cache_lock s \<Longrightarrow> length (snd (run_schedule f evs (s, []))) \<le> 1"
  using run_schedule_invariant [of "(s, [])" f evs] by simp

text \<open>
  C4. A call of \<open>update_cache\<close> that finds the refresh lock held returns the state as
  it found it: no fetch, no change of the cache or of the tables, no snapshot written.
  For threads that start with the lock free, whatever the order of their calls and
  completions, at most one thread is inside the cycle body at any moment; a call made
  meanwhile is such a no-op. A call that finds the lock free, followed by its
  completion, is the sequential \<open>update_cache\<close>.
\<close>

theorem refresh_cycles_mutually_exclusive:
  "(cache_lock s \<longrightarrow> update_cache f inp s = s)
 \<and> (cache_lock s \<longrightarrow> sched_step f (Call t inp) (s, running) = (s, running))
 \<and> (\<not> cache_lock s \<longrightarrow> length (snd (run_schedule f evs (s, []))) \<le> 1)
 \<and> (\<not> cache_lock s
      \<longrightarrow> run_schedule f [Call t inp, Finish t] (s, []) = (update_cache f inp s, []))"
  using update_cache_locked [of s f inp] call_while_locked [of s f t inp running]
        run_schedule_from_idle [of s f evs] call_then_finish [of s f t inp]
  by blast

theorem refresh_cycles_mutually_exclusive_witness:
  "cache_lock (initial_dashboard\<lparr>cache_lock := True\<rparr>)
 \<and> update_cache format_1f (observed 0 (NodesData [''green'']) False)
       (initial_dashboard\<lparr>cache_lock := True\<rparr>)
     = initial_dashboard\<lparr>cache_lock := True\<rparr>
 \<and> \<not> cache_lock initial_dashboard
 \<and> length (snd (run_schedule format_1f
       [Call 1 (observed 0 (NodesData [''green'']) False),
        Call 2 (observed 5 (NodesData [''green'']) False),
        Finish 1, Finish 2]
       (initial_dashboard, []))) \<le> 1"
proof -
  have locked: "cache_lock (initial_dashboard\<lparr>cache_lock := True\<rparr>)" by simp
  have free: "\<not> cache_lock initial_dashboard" by (simp add: initial_dashboard_def)
  from refresh_cycles_mutually_exclusive
         [of "initial_dashboard\<lparr>cache_lock := True\<rparr>" format_1f
             "observed 0 (NodesData [''green'']) False"]
       locked
  have a: "update_cache format_1f (observed 0 (NodesData [''green'']) False)
       (initial_dashboard\<lparr>cache_lock := True\<rparr>)
     = initial_dashboard\<lparr>cache_lock := True\<rparr>" by blast
  from refresh_cycles_mutually_exclusive
         [of initial_dashboard format_1f _ _ _
             "[Call 1 (observed 0 (NodesData [''green'']) False),
               Call 2 (observed 5 (NodesData [''green'']) False),
               Finish 1, Finish 2]"]
       free
  have b: "length (snd (run_schedule format_1f
       [Call 1 (observed 0 (NodesData [''green'']) False),
        Call 2 (observed 5 (NodesData [''green'']) False),
        Finish 1, Finish 2]
       (initial_dashboard, []))) \<le> 1" by blast
  from locked a free b show ?thesis by blast
qed

subsection \<open>Startup reconciliation\<close>

lemma close_incident_duration:
  "inc_start_time inc = Iso t
     \<Longrightarrow> inc_duration_seconds (close_incident now inc) = Some (max 0 (whole_seconds (now - t)))"
  by (simp add: close_incident_def Let_def fromisoformat_def)

lemma close_incident_unparsable:
  "inc_start_time inc = Unparsable txt
     \<Longrightarrow> inc_duration_seconds (close_incident now inc) = inc_duration_seconds inc"
  by (simp add: close_incident_def Let_def fromisoformat_def)

lemma close_orphaned_incidents_rows:
  "incidents (close_orphaned_incidents False now s)
     = map (\<lambda>inc. if inc_end_time inc = None \<and> cached_health s (inc_network_id inc) \<noteq> []
                       \<and> cached_health s (inc_network_id inc) \<noteq> ''offline''
                    then close_incident now inc else inc) (incidents s)"
proof (cases "filter (\<lambda>inc. inc_end_time inc = None) (incidents s) = []")
  case True
  then have "\<forall>inc \<in> set (incidents s). inc_end_time inc \<noteq> None"
    by (simp add: filter_empty_conv)
  then have "map (\<lambda>inc. if inc_end_time inc = None \<and> cached_health s (inc_network_id inc) \<noteq> []
                       \<and> cached_health s (inc_network_id inc) \<noteq> ''offline''
                    then close_incident now inc else inc) (incidents s) = incidents s"
    by (intro map_idI) auto
  with True show ?thesis by (simp add: close_orphaned_incidents_def)
next
  case False
  then show ?thesis
    by (simp add: close_orphaned_incidents_def Let_def cong: if_cong)
qed

lemma close_orphaned_incidents_frame:
  "networks (close_orphaned_incidents r now s) = networks s
 \<and> close_orphaned_incidents True now s = s"
  by (simp add: close_orphaned_incidents_def)


lemma close_orphaned_incidents_nth:
  assumes "i < length (incidents s)"
  shows "incidents (close_orphaned_incidents False now s) ! i
     = (if inc_end_time (incidents s ! i) = None
          \<and> cached_health s (inc_network_id (incidents s ! i)) \<noteq> []
          \<and> cached_health s (inc_network_id (incidents s ! i)) \<noteq> ''offline''
        then close_incident now (incidents s ! i) else incidents s ! i)"
  using assms by (simp add: close_orphaned_incidents_rows)

text \<open>
  C3, as the code has it. When the reconciliation session commits, an incident with no
  end time whose network has a cached health status that is present, not empty and not
  offline gets the current time as end time and, if its start time parses, the whole
  seconds from start to now (at least 0) as duration; an unparsable start time leaves
  the duration as it was. Every other incident is left as it is: closed ones, and open
  ones whose network's cached health is offline, empty or missing. No row is added and
  the cache is not touched. When the session raises, nothing changes.
\<close>

theorem close_orphaned_incidents_closes_online_only:
  assumes "i < length (incidents s)"
  shows "length (incidents (close_orphaned_incidents False now s)) = length (incidents s)
   \<and> networks (close_orphaned_incidents False now s) = networks s
   \<and> (inc_end_time (incidents s ! i) = None
        \<and> cached_health s (inc_network_id (incidents s ! i)) \<noteq> []
        \<and> cached_health s (inc_network_id (incidents s ! i)) \<noteq> ''offline''
       \<longrightarrow> inc_end_time (incidents (close_orphaned_incidents False now s) ! i) = Some (Iso now)
         \<and> inc_network_id (incidents (close_orphaned_incidents False now s) ! i)
             = inc_network_id (incidents s ! i)
         \<and> inc_start_time (incidents (close_orphaned_incidents False now s) ! i)
             = inc_start_time (incidents s ! i)
         \<and> (\<forall>t. inc_start_time (incidents s ! i) = Iso t
               \<longrightarrow> inc_duration_seconds (incidents (close_orphaned_incidents False now s) ! i)
                     = Some (max 0 (whole_seconds (now - t))))
         \<and> (\<forall>txt. inc_start_time (incidents s ! i) = Unparsable txt
               \<longrightarrow> inc_duration_seconds (incidents (close_orphaned_incidents False now s) ! i)
                     = inc_duration_seconds (incidents s ! i)))
   \<and> (inc_end_time (incidents s ! i) \<noteq> None
        \<or> cached_health s (inc_network_id (incidents s ! i)) = []
        \<or> cached_health s (inc_network_id (incidents s ! i)) = ''offline''
       \<longrightarrow> incidents (close_orphaned_incidents False now s) ! i = incidents s ! i)
   \<and> close_orphaned_incidents True now s = s"
proof -
  have len: "length (incidents (close_orphaned_incidents False now s)) = length (incidents s)"
    by (simp add: close_orphaned_incidents_rows)
  show ?thesis
    unfolding close_orphaned_incidents_nth [OF assms] len
    using close_orphaned_incidents_frame [of False now s]
          close_orphaned_incidents_frame [of True now s]
          close_incident_fields [of now "incidents s ! i"]
          close_incident_duration [of "incidents s ! i" _ now]
          close_incident_unparsable [of "incidents s ! i" _ now]
    by auto
qed

theorem close_orphaned_incidents_closes_online_only_witness:
  "(0::nat) < length (incidents (initial_dashboard
      \<lparr>networks := [''n1'' \<mapsto> new_network_cache\<lparr>nc_health_status := Some ''healthy''\<rparr>],
       incidents := [\<lparr>inc_network_id = ''n1'', inc_start_time = Iso 1000000,
                      inc_end_time = None, inc_duration_seconds = None,
                      inc_affected_devices = None\<rparr>]\<rparr>))
 \<and> incidents (close_orphaned_incidents False 61500000 (initial_dashboard
      \<lparr>networks := [''n1'' \<mapsto> new_network_cache\<lparr>nc_health_status := Some ''healthy''\<rparr>],
       incidents := [\<lparr>inc_network_id = ''n1'', inc_start_time = Iso 1000000,
                      inc_end_time = None, inc_duration_seconds = None,
                      inc_affected_devices = None\<rparr>]\<rparr>))
   = [\<lparr>inc_network_id = ''n1'', inc_start_time = Iso 1000000,
       inc_end_time = Some (Iso 61500000), inc_duration_seconds = Some 60,
       inc_affected_devices = None\<rparr>]"
  using close_orphaned_incidents_closes_online_only
    [of 0 "initial_dashboard
      \<lparr>networks := [''n1'' \<mapsto> new_network_cache\<lparr>nc_health_status := Some ''healthy''\<rparr>],
       incidents := [\<lparr>inc_network_id = ''n1'', inc_start_time = Iso 1000000,
                      inc_end_time = None, inc_duration_seconds = None,
                      inc_affected_devices = None\<rparr>]\<rparr>" 61500000]
  by (simp add: close_orphaned_incidents_def cached_health_def close_incident_def Let_def
        fromisoformat_def whole_seconds_def)

text \<open>
  C3 as stated fails for a network without a cached health entry: its health is not
  offline, yet the guard \<open>if health and health != 'offline'\<close> leaves the incident open.
\<close>

theorem orphan_without_cached_health_stays_open:
  "cached_health (initial_dashboard
      \<lparr>incidents := [\<lparr>inc_network_id = ''n1'', inc_start_time = Iso 1000000,
                      inc_end_time = None, inc_duration_seconds = None,
                      inc_affected_devices = None\<rparr>]\<rparr>) ''n1'' \<noteq> ''offline''
 \<and> inc_end_time (hd (incidents (initial_dashboard
      \<lparr>incidents := [\<lparr>inc_network_id = ''n1'', inc_start_time = Iso 1000000,
                      inc_end_time = None, inc_duration_seconds = None,
                      inc_affected_devices = None\<rparr>]\<rparr>))) = None
 \<and> inc_end_time (hd (incidents (close_orphaned_incidents False 61500000 (initial_dashboard
      \<lparr>incidents := [\<lparr>inc_network_id = ''n1'', inc_start_time = Iso 1000000,
                      inc_end_time = None, inc_duration_seconds = None,
                      inc_affected_devices = None\<rparr>]\<rparr>)))) = None"
  by (simp add: close_orphaned_incidents_def cached_health_def initial_dashboard_def)

end
